theory Spec2Isabelle
  imports Main "HOL-Library.Word" "HOL-Library.Signed_Division"
begin

unbundle bit_operations_syntax

section \<open>Go values used by the credential manager\<close>

text \<open>
  \<open>time.Duration\<close> is an \<open>int64\<close> count of nanoseconds: subtraction wraps, comparison is
  signed, and \<open>/\<close> truncates towards zero. \<open>time.Time\<close> is modelled as an unbounded count
  of nanoseconds, and \<open>Time.Add\<close> as adding the signed duration (the range of the library's
  \<open>Time\<close> is far wider than that of a \<open>Duration\<close>).
\<close>

type_synonym Duration = "64 word"
type_synonym Time = int
type_synonym bytes = "8 word list"

definition Minute :: Duration where
  "Minute = 60000000000"

definition Hour :: Duration where
  "Hour = 60 * Minute"

definition duration_div :: "Duration \<Rightarrow> Duration \<Rightarrow> Duration" where
  "duration_div a b = word_of_int (sint a sdiv sint b)"

definition time_Add :: "Time \<Rightarrow> Duration \<Rightarrow> Time" where
  "time_Add t d = t + sint d"

text \<open>
  An \<open>error\<close> value of a handler or of a library: only its \<open>Error()\<close> text is observed.
  The \<open>error\<close> interface itself is \<open>error option\<close>, \<open>None\<close> being \<open>nil\<close>.
\<close>

datatype error = New string

fun Error :: "error \<Rightarrow> string" where
  "Error (New s) = s"

datatype os_Signal = Signal string

record Credential =
  Cert :: string
  Key :: string

text \<open>
  Modelled from the spec: \<open>executor.Container\<close>, \<open>garden.BindMount\<close> and
  \<open>executor.EnvironmentVariable\<close>, whose declarations are not among the source files.
  The container identity has a unique identifier (guid), an internal IP, an external IP and
  organizational-unit strings, which are the fields the manager reads
  (\<open>CertificateProperties.OrganizationalUnit\<close> is flattened into one field); bind mounts
  and environment variables are opaque values that the manager only collects and forwards.
\<close>

record Container =
  Guid :: string
  InternalIP :: string
  ExternalIP :: string
  OrganizationalUnit :: "string list"

datatype BindMount = BindMount string
datatype EnvironmentVariable = EnvironmentVariable string string

subsection \<open>The certificate template\<close>

type_synonym IP = bytes

datatype ExtKeyUsage = ExtKeyUsageAny | ExtKeyUsageServerAuth | ExtKeyUsageClientAuth

record pkix_Name =
  CommonName :: string
  Name_OrganizationalUnit :: "string list"

record Certificate =
  Raw :: bytes
  SerialNumber :: int
  Subject :: pkix_Name
  IPAddresses :: "IP list"
  DNSNames :: "string list"
  NotBefore :: Time
  NotAfter :: Time
  KeyUsage :: "32 word"
  ExtKeyUsage :: "ExtKeyUsage list"

definition KeyUsageDigitalSignature :: "32 word" where
  "KeyUsageDigitalSignature = 1"

definition KeyUsageKeyEncipherment :: "32 word" where
  "KeyUsageKeyEncipherment = 4"

definition KeyUsageKeyAgreement :: "32 word" where
  "KeyUsageKeyAgreement = 16"

text \<open>
  The validity that \<open>x509.CreateCertificate\<close> writes into the certificate it signs, and
  that a parser of the certificate reads back: an X.509 validity time is an ASN.1
  \<open>UTCTime\<close> or \<open>GeneralizedTime\<close>, which holds whole seconds, so the nanoseconds of the
  template's \<open>NotBefore\<close> and \<open>NotAfter\<close> are dropped. This much of the library is
  modelled; the bytes it returns stay a parameter.
\<close>

definition asn1_Time :: "Time \<Rightarrow> Time" where
  "asn1_Time t = t div 1000000000 * 1000000000"

definition signed_NotBefore :: "Certificate \<Rightarrow> Time" where
  "signed_NotBefore template = asn1_Time (NotBefore template)"

definition signed_NotAfter :: "Certificate \<Rightarrow> Time" where
  "signed_NotAfter template = asn1_Time (NotAfter template)"

datatype rsa_PrivateKey = PrivateKey nat
datatype rsa_PublicKey = PublicKey nat

record pem_Block =
  Type :: string
  Bytes :: bytes

definition certificatePEMBlockType :: string where
  "certificatePEMBlockType = ''CERTIFICATE''"

definition privateKeyPEMBlockType :: string where
  "privateKeyPEMBlockType = ''RSA PRIVATE KEY''"

definition CredCreationSucceededCount :: string where
  "CredCreationSucceededCount = ''CredCreationSucceededCount''"

definition CredCreationSucceededDuration :: string where
  "CredCreationSucceededDuration = ''CredCreationSucceededDuration''"

definition CredCreationFailedCount :: string where
  "CredCreationFailedCount = ''CredCreationFailedCount''"

section \<open>The rotation period\<close>

definition calculateCredentialRotationPeriod :: "Duration \<Rightarrow> Duration" where
  "calculateCredentialRotationPeriod validityPeriod =
     (if 4 * Hour <s validityPeriod then validityPeriod - 30 * Minute
      else (let eighth = duration_div validityPeriod 8 in validityPeriod - eighth))"

section \<open>Collaborators, state and observable events\<close>

text \<open>
  Everything outside the manager (the entropy source, the clock, the handlers, the
  libraries) acts on a world \<open>'w\<close>. Each call that leaves the manager is appended to a
  trace together with its arguments and its result; calls to the metrics client
  (\<open>IncrementCounter\<close>, \<open>SendDuration\<close>, whose results the code ignores), timer operations
  and the closing of the \<open>ready\<close> channel are trace events as well. Logging is not modelled.
  Handlers are numbered by their position in the registration list.
\<close>

datatype event =
    Rsa_GenerateKey "error + rsa_PrivateKey"
  | Clock_Now Time
  | Clock_Since Time Duration
  | Uuid_NewV4 "error + bytes"
  | X509_CreateCertificate Certificate Certificate rsa_PublicKey rsa_PrivateKey "error + bytes"
  | Handler_CreateDir nat "error option"
  | Handler_RemoveDir nat "error option"
  | Handler_Update nat Credential "error option"
  | Handler_Close nat Credential "error option"
  | IncrementCounter string
  | SendDuration string Duration
  | Clock_NewTimer Duration
  | Timer_Reset Duration
  | Close_ready

record 'w state =
  world :: 'w
  trace :: "event list"

definition emit :: "event \<Rightarrow> 'w state \<Rightarrow> 'w state" where
  "emit e s = s\<lparr>trace := trace s @ [e]\<rparr>"

definition call :: "('w \<Rightarrow> 'a \<times> 'w) \<Rightarrow> ('a \<Rightarrow> event) \<Rightarrow> 'w state \<Rightarrow> 'a \<times> 'w state" where
  "call f ev s = (case f (world s) of (r, w) \<Rightarrow> (r, \<lparr>world = w, trace = trace s @ [ev r]\<rparr>))"

record 'w CredentialHandler =
  CreateDir :: "Container \<Rightarrow> 'w \<Rightarrow> (BindMount list \<times> EnvironmentVariable list \<times> error option) \<times> 'w"
  RemoveDir :: "Container \<Rightarrow> 'w \<Rightarrow> error option \<times> 'w"
  Update :: "Credential \<Rightarrow> Container \<Rightarrow> 'w \<Rightarrow> error option \<times> 'w"
  Close :: "Credential \<Rightarrow> Container \<Rightarrow> 'w \<Rightarrow> error option \<times> 'w"

text \<open>
  The library functions the manager calls, taken as parameters: \<open>rsa.GenerateKey\<close>,
  \<open>(*rsa.PrivateKey).Public\<close>, \<open>uuid.NewV4\<close>, \<open>x509.CreateCertificate\<close>,
  \<open>x509.MarshalPKCS1PrivateKey\<close>, \<open>pem.Encode\<close> (the text it writes, or its error) and
  \<open>net.ParseIP\<close>.
\<close>

record 'w library =
  rsa_GenerateKey :: "nat \<Rightarrow> 'w \<Rightarrow> (error + rsa_PrivateKey) \<times> 'w"
  Public :: "rsa_PrivateKey \<Rightarrow> rsa_PublicKey"
  uuid_NewV4 :: "'w \<Rightarrow> (error + bytes) \<times> 'w"
  x509_CreateCertificate ::
    "Certificate \<Rightarrow> Certificate \<Rightarrow> rsa_PublicKey \<Rightarrow> rsa_PrivateKey \<Rightarrow> 'w \<Rightarrow> (error + bytes) \<times> 'w"
  x509_MarshalPKCS1PrivateKey :: "rsa_PrivateKey \<Rightarrow> bytes"
  pem_Encode :: "pem_Block \<Rightarrow> error + string"
  net_ParseIP :: "string \<Rightarrow> IP"

text \<open>
  The \<open>credManager\<close> struct. Its \<open>entropyReader\<close> is part of the world, its
  \<open>metronClient\<close> is the trace, its \<open>clock\<close> is the pair \<open>clock_Now\<close>, \<open>clock_Since\<close>.
\<close>

record 'w credManager =
  validityPeriod :: Duration
  clock_Now :: "'w \<Rightarrow> Time \<times> 'w"
  clock_Since :: "Time \<Rightarrow> 'w \<Rightarrow> Duration \<times> 'w"
  CaCert :: Certificate
  privateKey :: rsa_PrivateKey
  handlers :: "'w CredentialHandler list"

section \<open>The no-op manager\<close>

datatype outcome = Returned "error option" | Blocked

definition noop_CreateCredDir ::
  "Container \<Rightarrow> 'w state \<Rightarrow> (BindMount list \<times> EnvironmentVariable list \<times> error option) \<times> 'w state" where
  "noop_CreateCredDir container s = (([], [], None), s)"

definition noop_RemoveCredDir :: "Container \<Rightarrow> 'w state \<Rightarrow> error option \<times> 'w state" where
  "noop_RemoveCredDir container s = (None, s)"

text \<open>
  The runner closes \<open>ready\<close> and then receives from \<open>signals\<close>, given here as the list of
  signals that will arrive: with none it blocks.
\<close>

definition noop_Runner :: "Container \<Rightarrow> os_Signal list \<Rightarrow> 'w state \<Rightarrow> outcome \<times> 'w state" where
  "noop_Runner container signals s =
     (let s1 = emit Close_ready s
      in case signals of [] \<Rightarrow> (Blocked, s1) | sig # rest \<Rightarrow> (Returned None, s1))"

section \<open>Directories of the handlers\<close>

fun CreateCredDir_loop ::
  "'w CredentialHandler list \<Rightarrow> nat \<Rightarrow> Container \<Rightarrow> BindMount list \<Rightarrow> EnvironmentVariable list \<Rightarrow>
   'w state \<Rightarrow> (BindMount list \<times> EnvironmentVariable list \<times> error option) \<times> 'w state" where
  "CreateCredDir_loop [] i container mounts envs s = ((mounts, envs, None), s)"
| "CreateCredDir_loop (h # hs) i container mounts envs s =
     (case call (CreateDir h container) (\<lambda>r. Handler_CreateDir i (snd (snd r))) s of
        ((handlerMounts, handlerEnv, Some err), s') \<Rightarrow> (([], [], Some err), s')
      | ((handlerMounts, handlerEnv, None), s') \<Rightarrow>
          CreateCredDir_loop hs (Suc i) container (mounts @ handlerMounts) (envs @ handlerEnv) s')"

definition CreateCredDir ::
  "'w credManager \<Rightarrow> Container \<Rightarrow> 'w state \<Rightarrow>
   (BindMount list \<times> EnvironmentVariable list \<times> error option) \<times> 'w state" where
  "CreateCredDir c container s = CreateCredDir_loop (handlers c) 0 container [] [] s"

text \<open>
  \<open>multierror.Error\<close> of go-multierror: the list \<open>Errors\<close>, and the \<open>ErrorFormat\<close> closure
  that \<open>RemoveCredDir\<close> installs, which \<open>Error()\<close> applies to the list.
  \<open>multierror.Append\<close> adds a non-nil error to the list, skips a nil one, and returns the
  pointer it was given. (A handler is taken to return a plain error, not a
  \<open>*multierror.Error\<close> of its own, which \<open>Append\<close> would flatten.)
\<close>

record multierror_Error =
  Errors :: "error option list"

fun ErrorFormat_loop :: "error option list \<Rightarrow> string \<Rightarrow> string" where
  "ErrorFormat_loop [] s = s"
| "ErrorFormat_loop (None # errs) s = ErrorFormat_loop errs s"
| "ErrorFormat_loop (Some e # errs) s =
     ErrorFormat_loop errs ((if s \<noteq> [] then s @ ''; '' else s) @ Error e)"

definition ErrorFormat :: "error option list \<Rightarrow> string" where
  "ErrorFormat errs = ErrorFormat_loop errs []"

definition multierror_Error_text :: "multierror_Error \<Rightarrow> string" where
  "multierror_Error_text err = ErrorFormat (Errors err)"

definition multierror_Append :: "multierror_Error \<Rightarrow> error option \<Rightarrow> multierror_Error" where
  "multierror_Append err e =
     (case e of None \<Rightarrow> err | Some x \<Rightarrow> err\<lparr>Errors := Errors err @ [Some x]\<rparr>)"

fun RemoveCredDir_loop ::
  "'w CredentialHandler list \<Rightarrow> nat \<Rightarrow> Container \<Rightarrow> multierror_Error \<Rightarrow> 'w state \<Rightarrow>
   multierror_Error \<times> 'w state" where
  "RemoveCredDir_loop [] i container err s = (err, s)"
| "RemoveCredDir_loop (h # hs) i container err s =
     (case call (RemoveDir h container) (Handler_RemoveDir i) s of
        (handlerErr, s') \<Rightarrow>
          RemoveCredDir_loop hs (Suc i) container (multierror_Append err handlerErr) s')"

text \<open>
  The value returned has the interface type \<open>error\<close>: \<open>None\<close> is \<open>nil\<close>, and \<open>Some err\<close> is
  an interface holding the \<open>*multierror.Error\<close> \<open>err\<close>. The function returns the pointer
  it built, which is never nil, whatever the list holds.
\<close>

definition RemoveCredDir ::
  "'w credManager \<Rightarrow> Container \<Rightarrow> 'w state \<Rightarrow> multierror_Error option \<times> 'w state" where
  "RemoveCredDir c container s =
     (case RemoveCredDir_loop (handlers c) 0 container \<lparr>Errors = []\<rparr> s of
        (err, s') \<Rightarrow> (Some err, s'))"

section \<open>Generating a credential\<close>

text \<open>\<open>(*big.Int).SetBytes\<close>: the bytes read as a big-endian unsigned number.\<close>

definition big_SetBytes :: "bytes \<Rightarrow> int" where
  "big_SetBytes buf = foldl (\<lambda>acc b. acc * 256 + uint b) 0 buf"

definition createCertificateTemplate ::
  "'w library \<Rightarrow> string \<Rightarrow> string \<Rightarrow> Time \<Rightarrow> Time \<Rightarrow> string list \<Rightarrow> Certificate" where
  "createCertificateTemplate L ipaddress guid notBefore notAfter organizationalUnits =
     (let ipaddr = (if length ipaddress = 0 then [] else [net_ParseIP L ipaddress])
      in \<lparr>Raw = [],
          SerialNumber = 0,
          Subject = \<lparr>CommonName = guid, Name_OrganizationalUnit = organizationalUnits\<rparr>,
          IPAddresses = ipaddr,
          DNSNames = [guid],
          NotBefore = notBefore,
          NotAfter = notAfter,
          KeyUsage = KeyUsageDigitalSignature OR KeyUsageKeyEncipherment OR KeyUsageKeyAgreement,
          ExtKeyUsage = [ExtKeyUsageClientAuth, ExtKeyUsageServerAuth]\<rparr>)"

text \<open>
  \<open>pemEncode\<close> on a \<open>bytes.Buffer\<close>, the buffer given by its contents: the text of the
  block is appended. When \<open>pem.Encode\<close> fails the caller drops the buffer.
\<close>

definition pemEncode :: "'w library \<Rightarrow> bytes \<Rightarrow> string \<Rightarrow> string \<Rightarrow> error option \<times> string" where
  "pemEncode L bs blockType writer =
     (case pem_Encode L \<lparr>Type = blockType, Bytes = bs\<rparr> of
        Inl err \<Rightarrow> (Some err, writer)
      | Inr text \<Rightarrow> (None, writer @ text))"

definition generateCreds ::
  "'w library \<Rightarrow> 'w credManager \<Rightarrow> Container \<Rightarrow> string \<Rightarrow> 'w state \<Rightarrow>
   (error + Credential) \<times> 'w state" where
  "generateCreds L c container certGUID s =
     (case call (rsa_GenerateKey L 2048) Rsa_GenerateKey s of
        (Inl err, s1) \<Rightarrow> (Inl err, s1)
      | (Inr privKey, s1) \<Rightarrow>
         (let ipForCert = (if length (InternalIP container) = 0 then ExternalIP container
                           else InternalIP container)
          in case call (clock_Now c) Clock_Now s1 of
            (startValidity, s2) \<Rightarrow>
              (let template = createCertificateTemplate L ipForCert certGUID startValidity
                                (time_Add startValidity (validityPeriod c))
                                (OrganizationalUnit container)
               in case call (uuid_NewV4 L) Uuid_NewV4 s2 of
                 (Inl err, s3) \<Rightarrow> (Inl err, s3)
               | (Inr guid, s3) \<Rightarrow>
                  (let template = template\<lparr>SerialNumber := big_SetBytes guid\<rparr>
                   in case call (x509_CreateCertificate L template (CaCert c) (Public L privKey)
                                   (privateKey c))
                                (X509_CreateCertificate template (CaCert c) (Public L privKey)
                                   (privateKey c)) s3 of
                     (Inl err, s4) \<Rightarrow> (Inl err, s4)
                   | (Inr certBytes, s4) \<Rightarrow>
                      (let privateKeyBytes = x509_MarshalPKCS1PrivateKey L privKey
                       in case pemEncode L privateKeyBytes privateKeyPEMBlockType [] of
                         (Some err, keyBuf) \<Rightarrow> (Inl err, s4)
                       | (None, keyBuf) \<Rightarrow>
                          (case pemEncode L certBytes certificatePEMBlockType [] of
                             (Some err, certificateBuf) \<Rightarrow> (Inl err, s4)
                           | (None, certificateBuf) \<Rightarrow>
                              (case pemEncode L (Raw (CaCert c)) certificatePEMBlockType
                                      certificateBuf of
                                 (Some err, certificateBuf') \<Rightarrow> (Inl err, s4)
                               | (None, certificateBuf') \<Rightarrow>
                                   (Inr \<lparr>Cert = certificateBuf', Key = keyBuf\<rparr>, s4))))))))"

section \<open>The runner\<close>

fun update_handlers ::
  "'w CredentialHandler list \<Rightarrow> nat \<Rightarrow> Credential \<Rightarrow> Container \<Rightarrow> 'w state \<Rightarrow>
   error option \<times> 'w state" where
  "update_handlers [] i creds container s = (None, s)"
| "update_handlers (h # hs) i creds container s =
     (case call (Update h creds container) (Handler_Update i creds) s of
        (Some err, s') \<Rightarrow> (Some err, s')
      | (None, s') \<Rightarrow> update_handlers hs (Suc i) creds container s')"

fun close_handlers ::
  "'w CredentialHandler list \<Rightarrow> nat \<Rightarrow> Credential \<Rightarrow> Container \<Rightarrow> 'w state \<Rightarrow> 'w state" where
  "close_handlers [] i cred container s = s"
| "close_handlers (h # hs) i cred container s =
     (case call (Close h cred container) (Handler_Close i cred) s of
        (closeErr, s') \<Rightarrow> close_handlers hs (Suc i) cred container s')"

text \<open>
  The runner up to its loop: the first issuance, the timer, \<open>close(ready)\<close>. The result is
  \<open>Some err\<close> when the runner has returned \<open>err\<close>, and \<open>None\<close> when it goes on to the loop.
\<close>

definition Runner_start ::
  "'w library \<Rightarrow> 'w credManager \<Rightarrow> Container \<Rightarrow> 'w state \<Rightarrow> error option \<times> 'w state" where
  "Runner_start L c container s =
     (case call (clock_Now c) Clock_Now s of
        (start, s1) \<Rightarrow>
          (case generateCreds L c container (Guid container) s1 of
             (r, s2) \<Rightarrow>
               (case call (clock_Since c start) (Clock_Since start) s2 of
                  (duration, s3) \<Rightarrow>
                    (case r of
                       Inl err \<Rightarrow> (Some err, emit (IncrementCounter CredCreationFailedCount) s3)
                     | Inr creds \<Rightarrow>
                        (case update_handlers (handlers c) 0 creds container s3 of
                           (Some err, s4) \<Rightarrow> (Some err, s4)
                         | (None, s4) \<Rightarrow>
                            (let s5 = emit (IncrementCounter CredCreationSucceededCount) s4;
                                 s6 = emit (SendDuration CredCreationSucceededDuration duration) s5;
                                 rotationDuration =
                                   calculateCredentialRotationPeriod (validityPeriod c);
                                 s7 = emit (Clock_NewTimer rotationDuration) s6
                             in (None, emit Close_ready s7)))))))"

text \<open>The body of the loop when the timer has fired; \<open>None\<close> when the loop goes on.\<close>

definition Runner_regenerate ::
  "'w library \<Rightarrow> 'w credManager \<Rightarrow> Container \<Rightarrow> 'w state \<Rightarrow> error option \<times> 'w state" where
  "Runner_regenerate L c container s =
     (case call (clock_Now c) Clock_Now s of
        (start, s1) \<Rightarrow>
          (case generateCreds L c container (Guid container) s1 of
             (r, s2) \<Rightarrow>
               (case call (clock_Since c start) (Clock_Since start) s2 of
                  (duration, s3) \<Rightarrow>
                    (case r of
                       Inl err \<Rightarrow> (Some err, emit (IncrementCounter CredCreationFailedCount) s3)
                     | Inr creds \<Rightarrow>
                        (let s4 = emit (IncrementCounter CredCreationSucceededCount) s3;
                             s5 = emit (SendDuration CredCreationSucceededDuration duration) s4
                         in case update_handlers (handlers c) 0 creds container s5 of
                           (Some err, s6) \<Rightarrow> (Some err, s6)
                         | (None, s6) \<Rightarrow>
                            (let rotationDuration =
                                   calculateCredentialRotationPeriod (validityPeriod c)
                             in (None, emit (Timer_Reset rotationDuration) s6)))))))"

text \<open>The body of the loop when a signal has arrived: the runner returns.\<close>

definition Runner_signalled ::
  "'w library \<Rightarrow> 'w credManager \<Rightarrow> Container \<Rightarrow> os_Signal \<Rightarrow> 'w state \<Rightarrow> error option \<times> 'w state" where
  "Runner_signalled L c container signal s =
     (case generateCreds L c container [] s of
        (Inl err, s1) \<Rightarrow> (Some err, emit (IncrementCounter CredCreationFailedCount) s1)
      | (Inr cred, s1) \<Rightarrow> (None, close_handlers (handlers c) 0 cred container s1))"

text \<open>
  The \<open>select\<close> loop, over the events that its two channels will deliver, in the order in
  which the \<open>select\<close> takes them. When none is left the runner blocks.
\<close>

datatype chan_event = TimerFired | Signalled os_Signal

fun Runner_loop ::
  "'w library \<Rightarrow> 'w credManager \<Rightarrow> Container \<Rightarrow> chan_event list \<Rightarrow> 'w state \<Rightarrow> outcome \<times> 'w state" where
  "Runner_loop L c container [] s = (Blocked, s)"
| "Runner_loop L c container (TimerFired # evs) s =
     (case Runner_regenerate L c container s of
        (Some err, s') \<Rightarrow> (Returned (Some err), s')
      | (None, s') \<Rightarrow> Runner_loop L c container evs s')"
| "Runner_loop L c container (Signalled signal # evs) s =
     (case Runner_signalled L c container signal s of
        (err, s') \<Rightarrow> (Returned err, s'))"

definition Runner ::
  "'w library \<Rightarrow> 'w credManager \<Rightarrow> Container \<Rightarrow> chan_event list \<Rightarrow> 'w state \<Rightarrow> outcome \<times> 'w state" where
  "Runner L c container evs s =
     (case Runner_start L c container s of
        (Some err, s') \<Rightarrow> (Returned (Some err), s')
      | (None, s') \<Rightarrow> Runner_loop L c container evs s')"

section \<open>Reading a trace\<close>

text \<open>The events that a step has appended: those of the later trace beyond the earlier one.\<close>

definition new_events :: "'w state \<Rightarrow> 'w state \<Rightarrow> event list" where
  "new_events s s' = drop (length (trace s)) (trace s')"

fun createDir_calls :: "event list \<Rightarrow> (nat \<times> error option) list" where
  "createDir_calls [] = []"
| "createDir_calls (Handler_CreateDir i r # es) = (i, r) # createDir_calls es"
| "createDir_calls (e # es) = createDir_calls es"

fun removeDir_calls :: "event list \<Rightarrow> (nat \<times> error option) list" where
  "removeDir_calls [] = []"
| "removeDir_calls (Handler_RemoveDir i r # es) = (i, r) # removeDir_calls es"
| "removeDir_calls (e # es) = removeDir_calls es"

fun update_calls :: "event list \<Rightarrow> (nat \<times> Credential \<times> error option) list" where
  "update_calls [] = []"
| "update_calls (Handler_Update i creds r # es) = (i, creds, r) # update_calls es"
| "update_calls (e # es) = update_calls es"

fun close_calls :: "event list \<Rightarrow> (nat \<times> Credential) list" where
  "close_calls [] = []"
| "close_calls (Handler_Close i cred r # es) = (i, cred) # close_calls es"
| "close_calls (e # es) = close_calls es"

fun counters :: "event list \<Rightarrow> string list" where
  "counters [] = []"
| "counters (IncrementCounter name # es) = name # counters es"
| "counters (e # es) = counters es"

fun durations :: "event list \<Rightarrow> string list" where
  "durations [] = []"
| "durations (SendDuration name d # es) = name # durations es"
| "durations (e # es) = durations es"

fun templates :: "event list \<Rightarrow> Certificate list" where
  "templates [] = []"
| "templates (X509_CreateCertificate template parent pub priv r # es) = template # templates es"
| "templates (e # es) = templates es"

fun clock_reads :: "event list \<Rightarrow> Time list" where
  "clock_reads [] = []"
| "clock_reads (Clock_Now t # es) = t # clock_reads es"
| "clock_reads (e # es) = clock_reads es"

text \<open>Whether an event is a call of the metrics client.\<close>

fun is_telemetry :: "event \<Rightarrow> bool" where
  "is_telemetry (IncrementCounter name) = True"
| "is_telemetry (SendDuration name d) = True"
| "is_telemetry e = False"

section \<open>A concrete manager\<close>

text \<open>
  A world that is a counter of ticks: the clock reads it in seconds and advances it, the
  entropy source numbers the keys it hands out.
\<close>

definition ex_library :: "nat library" where
  "ex_library =
     \<lparr>rsa_GenerateKey = (\<lambda>bits w. (Inr (PrivateKey w), Suc w)),
      Public = (\<lambda>k. case k of PrivateKey n \<Rightarrow> PublicKey n),
      uuid_NewV4 = (\<lambda>w. (Inr ([0, 0, 0, 0, 0, 0, 0, 0, 0, 0, 0, 0, 0, 0, 0, 7]), Suc w)),
      x509_CreateCertificate = (\<lambda>template parent pub priv w. (Inr [48, 130], w)),
      x509_MarshalPKCS1PrivateKey = (\<lambda>k. case k of PrivateKey n \<Rightarrow> [48, of_nat n]),
      pem_Encode = (\<lambda>b. Inr (''<'' @ Type b @ ''>'')),
      net_ParseIP = (\<lambda>ip. if ip = ''10.0.0.5'' then [10, 0, 0, 5] else [])\<rparr>"

definition ex_broken_library :: "nat library" where
  "ex_broken_library =
     ex_library\<lparr>rsa_GenerateKey := (\<lambda>bits w. (Inl (New ''no entropy''), w))\<rparr>"

definition ex_handler :: "nat CredentialHandler" where
  "ex_handler =
     \<lparr>CreateDir = (\<lambda>container w. (([BindMount ''/etc/creds''], [EnvironmentVariable ''CERT'' ''/etc/creds/cert''], None), w)),
      RemoveDir = (\<lambda>container w. (None, w)),
      Update = (\<lambda>creds container w. (None, w)),
      Close = (\<lambda>cred container w. (Some (New ''close failed''), w))\<rparr>"

definition ex_failing_handler :: "nat CredentialHandler" where
  "ex_failing_handler =
     \<lparr>CreateDir = (\<lambda>container w. (([BindMount ''/tmp''], [], Some (New ''mkdir failed'')), w)),
      RemoveDir = (\<lambda>container w. (Some (New ''rmdir failed''), w)),
      Update = (\<lambda>creds container w. (Some (New ''update failed''), w)),
      Close = (\<lambda>cred container w. (Some (New ''close failed''), w))\<rparr>"

definition ex_CaCert :: Certificate where
  "ex_CaCert =
     \<lparr>Raw = [67, 65],
      SerialNumber = 1,
      Subject = \<lparr>CommonName = ''ca'', Name_OrganizationalUnit = []\<rparr>,
      IPAddresses = [],
      DNSNames = [],
      NotBefore = 0,
      NotAfter = 1000000000000000000,
      KeyUsage = 0,
      ExtKeyUsage = []\<rparr>"

definition ex_manager :: "nat CredentialHandler list \<Rightarrow> nat credManager" where
  "ex_manager hs =
     \<lparr>validityPeriod = 2 * Hour,
      clock_Now = (\<lambda>w. (int w * 1000000000, Suc w)),
      clock_Since = (\<lambda>t w. (word_of_int (int w * 1000000000 - t), w)),
      CaCert = ex_CaCert,
      privateKey = PrivateKey 0,
      handlers = hs\<rparr>"

text \<open>
  The same manager with a clock that stands at 1.7 seconds and a validity period to
  choose.
\<close>

definition ex_subsecond_manager :: "Duration \<Rightarrow> nat credManager" where
  "ex_subsecond_manager period =
     \<lparr>validityPeriod = period,
      clock_Now = (\<lambda>w. (1700000000, Suc w)),
      clock_Since = (\<lambda>t w. (word_of_int (1700000000 - t), w)),
      CaCert = ex_CaCert,
      privateKey = PrivateKey 0,
      handlers = []\<rparr>"

definition ex_container :: Container where
  "ex_container =
     \<lparr>Guid = ''guid-1'', InternalIP = ''10.0.0.5'', ExternalIP = ''192.168.0.9'',
      OrganizationalUnit = [''app:a'']\<rparr>"

definition ex_state :: "nat state" where
  "ex_state = \<lparr>world = 0, trace = []\<rparr>"

text \<open>What a generation of this manager hands out, for a certificate GUID and a start time.\<close>

definition ex_creds :: Credential where
  "ex_creds = \<lparr>Cert = ''<CERTIFICATE><CERTIFICATE>'', Key = ''<RSA PRIVATE KEY>''\<rparr>"

definition ex_template :: "string \<Rightarrow> Time \<Rightarrow> Certificate" where
  "ex_template guid t =
     \<lparr>Raw = [],
      SerialNumber = 7,
      Subject = \<lparr>CommonName = guid, Name_OrganizationalUnit = [''app:a'']\<rparr>,
      IPAddresses = [[10, 0, 0, 5]],
      DNSNames = [guid],
      NotBefore = t,
      NotAfter = t + 7200000000000,
      KeyUsage = 21,
      ExtKeyUsage = [ExtKeyUsageClientAuth, ExtKeyUsageServerAuth]\<rparr>"

definition ex_generation :: "string \<Rightarrow> nat \<Rightarrow> event list" where
  "ex_generation guid w =
     [Rsa_GenerateKey (Inr (PrivateKey w)),
      Clock_Now (int (Suc w) * 1000000000),
      Uuid_NewV4 (Inr ([0, 0, 0, 0, 0, 0, 0, 0, 0, 0, 0, 0, 0, 0, 0, 7])),
      X509_CreateCertificate (ex_template guid (int (Suc w) * 1000000000)) ex_CaCert
        (PublicKey w) (PrivateKey 0) (Inr [48, 130])]"

text \<open>
  The combined message in the words of the specification: the failure messages in handler
  order, separated by semicolons. It is compared with \<open>ErrorFormat\<close> below.
\<close>

fun semicolon_separated :: "string list \<Rightarrow> string" where
  "semicolon_separated [] = []"
| "semicolon_separated [m] = m"
| "semicolon_separated (m # ms) = m @ ''; '' @ semicolon_separated ms"

section \<open>Traces of the steps\<close>

lemma call_trace: "call f ev s = (r, s') \<Longrightarrow> trace s' = trace s @ [ev r]"
  by (auto simp: call_def split: prod.splits)

lemma call_result: "call f ev s = (r, s') \<Longrightarrow> f (world s) = (r, world s')"
  by (auto simp: call_def split: prod.splits)

lemma trace_emit: "trace (emit e s) = trace s @ [e]"
  by (simp add: emit_def)

lemma world_emit: "world (emit e s) = world s"
  by (simp add: emit_def)

lemma new_events_append: "trace s' = trace s @ d \<Longrightarrow> new_events s s' = d"
  by (simp add: new_events_def)

lemma createDir_calls_append: "createDir_calls (a @ b) = createDir_calls a @ createDir_calls b"
  by (induction a rule: createDir_calls.induct) simp_all

lemma removeDir_calls_append: "removeDir_calls (a @ b) = removeDir_calls a @ removeDir_calls b"
  by (induction a rule: removeDir_calls.induct) simp_all

lemma update_calls_append: "update_calls (a @ b) = update_calls a @ update_calls b"
  by (induction a rule: update_calls.induct) simp_all

lemma close_calls_append: "close_calls (a @ b) = close_calls a @ close_calls b"
  by (induction a rule: close_calls.induct) simp_all

lemma counters_append: "counters (a @ b) = counters a @ counters b"
  by (induction a rule: counters.induct) simp_all

lemma durations_append: "durations (a @ b) = durations a @ durations b"
  by (induction a rule: durations.induct) simp_all

lemma templates_append: "templates (a @ b) = templates a @ templates b"
  by (induction a rule: templates.induct) simp_all

lemma clock_reads_append: "clock_reads (a @ b) = clock_reads a @ clock_reads b"
  by (induction a rule: clock_reads.induct) simp_all

lemma upt_shift: "[i..<i + Suc n] = i # [Suc i..<Suc i + n]"
  using upt_conv_Cons [of i "i + Suc n"] by simp

lemma RemoveCredDir_loop_events:
  "RemoveCredDir_loop hs i container err s = (err', s') \<Longrightarrow>
   \<exists>rs. length rs = length hs \<and>
        trace s' = trace s @ map2 Handler_RemoveDir [i..<i + length hs] rs \<and>
        Errors err' = Errors err @ filter (\<lambda>r. r \<noteq> None) rs"
proof (induction hs arbitrary: i err s)
  case Nil
  then show ?case by simp
next
  case (Cons h hs)
  obtain handlerErr s1 where c: "call (RemoveDir h container) (Handler_RemoveDir i) s = (handlerErr, s1)"
    by (cases "call (RemoveDir h container) (Handler_RemoveDir i) s")
  with Cons.prems have "RemoveCredDir_loop hs (Suc i) container (multierror_Append err handlerErr) s1 = (err', s')"
    by simp
  from Cons.IH [OF this] obtain rs where rs: "length rs = length hs"
    "trace s' = trace s1 @ map2 Handler_RemoveDir [Suc i..<Suc i + length hs] rs"
    "Errors err' = Errors (multierror_Append err handlerErr) @ filter (\<lambda>r. r \<noteq> None) rs"
    by blast
  have "[i..<i + length (h # hs)] = i # [Suc i..<Suc i + length hs]"
    using upt_shift [of i "length hs"] by simp
  with rs call_trace [OF c] have
    "length (handlerErr # rs) = length (h # hs) \<and>
     trace s' = trace s @ map2 Handler_RemoveDir [i..<i + length (h # hs)] (handlerErr # rs) \<and>
     Errors err' = Errors err @ filter (\<lambda>r. r \<noteq> None) (handlerErr # rs)"
    by (cases handlerErr) (simp_all add: multierror_Append_def)
  then show ?case by blast
qed

section \<open>Properties of the rotation period\<close>

lemma sint_sub_small:
  fixes a b :: "64 word"
  assumes "- (2 ^ 63) \<le> sint a - sint b" and "sint a - sint b < 2 ^ 63"
  shows "sint (a - b) = sint a - sint b"
  using assms by (simp add: sint_word_ariths signed_take_bit_int_eq_self)

lemma sint_bounds64: "- (2 ^ 63) \<le> sint (p :: 64 word)" "sint (p :: 64 word) < 2 ^ 63"
  using sint_ge [of p] sint_lt [of p] by simp_all

lemma sdiv8_bounds:
  fixes k :: int
  shows "0 \<le> k \<Longrightarrow> 0 \<le> k sdiv 8 \<and> k sdiv 8 \<le> k"
    and "k \<le> 0 \<Longrightarrow> k \<le> k sdiv 8 \<and> k sdiv 8 \<le> 0"
  by (auto simp: signed_divide_int_def sgn_if)

lemma sdiv8_floor: "0 \<le> (k :: int) \<Longrightarrow> k sdiv 8 = k div 8"
  by (simp add: signed_divide_int_def sgn_if)

lemma sint_duration_div8: "sint (duration_div p 8) = sint p sdiv 8"
proof -
  have "- (2 ^ 63) \<le> sint p sdiv 8 \<and> sint p sdiv 8 < 2 ^ 63"
    using sdiv8_bounds [of "sint p"] sint_bounds64 [of p] by (cases "0 \<le> sint p") auto
  then show ?thesis
    by (simp add: duration_div_def sint_sbintrunc' signed_take_bit_int_eq_self)
qed

lemma sint_Hour_Minute: "sint (4 * Hour) = 14400000000000" "sint (30 * Minute) = 1800000000000"
  by (simp_all add: Hour_def Minute_def)

lemma sint_rotation_period:
  "sint (calculateCredentialRotationPeriod p) =
     (if sint (4 * Hour) < sint p then sint p - sint (30 * Minute) else sint p - sint p sdiv 8)"
proof (cases "4 * Hour <s p")
  case True
  then have gt: "14400000000000 < sint p"
    by (simp add: word_sless_alt Hour_def Minute_def)
  have "sint (p - 30 * Minute) = sint p - sint (30 * Minute :: Duration)"
    using gt sint_bounds64 [of p] by (intro sint_sub_small) (simp_all add: Minute_def)
  then show ?thesis
    using True gt by (simp add: calculateCredentialRotationPeriod_def sint_Hour_Minute)
next
  case False
  then have le: "\<not> 14400000000000 < sint p"
    by (simp add: word_sless_alt Hour_def Minute_def)
  have "sint (p - duration_div p 8) = sint p - sint (duration_div p 8)"
    using sdiv8_bounds [of "sint p"] sint_bounds64 [of p]
    by (intro sint_sub_small) (cases "0 \<le> sint p"; simp add: sint_duration_div8)+
  then show ?thesis
    using False le
    by (simp add: calculateCredentialRotationPeriod_def sint_duration_div8 sint_Hour_Minute)
qed

text \<open>
  C5. For every validity period \<open>p\<close> (a 64-bit count of nanoseconds), the rotation delay is
  \<open>p - 30min\<close> when \<open>p > 4h\<close> and \<open>p - p/8\<close> otherwise, as integers and without
  wrap-around, \<open>/\<close> being the division of the duration type, which truncates; for a
  period that is not negative this is the floor division.
\<close>

theorem rotation_period:
  "sint (4 * Hour) = 14400000000000 \<and> sint (30 * Minute) = 1800000000000 \<and>
   sint (calculateCredentialRotationPeriod p) =
     (if sint (4 * Hour) < sint p then sint p - sint (30 * Minute) else sint p - sint p sdiv 8) \<and>
   (0 \<le> sint p \<longrightarrow>
      sint (calculateCredentialRotationPeriod p) =
        (if sint (4 * Hour) < sint p then sint p - sint (30 * Minute) else sint p - sint p div 8))"
  using sint_rotation_period [of p] by (simp add: sint_Hour_Minute sdiv8_floor)

theorem rotation_period_witness:
  "0 \<le> sint (2 * Hour) \<and> sint (calculateCredentialRotationPeriod (2 * Hour)) = 6300000000000 \<and>
   sint (calculateCredentialRotationPeriod (24 * Hour)) = 84600000000000"
  using rotation_period [of "2 * Hour"] rotation_period [of "24 * Hour"]
  by (simp add: Hour_def Minute_def)

section \<open>Properties of the no-op manager\<close>

text \<open>
  C10. The no-op manager: \<open>CreateCredDir\<close> returns nil mounts, nil environment variables
  and no error, \<open>RemoveCredDir\<close> returns no error, and the runner closes \<open>ready\<close>, does
  nothing else (no credential is generated, no handler is called, the world is left as it
  was), blocks while no signal arrives and returns nil when one does.
\<close>

theorem noop_manager:
  "noop_CreateCredDir container s = (([], [], None), s) \<and>
   noop_RemoveCredDir container s = (None, s) \<and>
   fst (noop_Runner container [] s) = Blocked \<and>
   fst (noop_Runner container (sig # rest) s) = Returned None \<and>
   new_events s (snd (noop_Runner container signals s)) = [Close_ready] \<and>
   world (snd (noop_Runner container signals s)) = world s"
  by (cases signals)
     (simp_all add: noop_CreateCredDir_def noop_RemoveCredDir_def noop_Runner_def
        new_events_def emit_def)

section \<open>Traces of the fan-outs\<close>

lemma CreateCredDir_loop_events:
  "CreateCredDir_loop hs i container mounts envs s = ((mounts', envs', err), s') \<Longrightarrow>
   \<exists>rs. length rs \<le> length hs \<and>
        trace s' = trace s @ map2 Handler_CreateDir [i..<i + length rs] rs \<and>
        (\<forall>r \<in> set (butlast rs). r = None) \<and>
        (case err of
           None \<Rightarrow> length rs = length hs \<and> (\<forall>r \<in> set rs. r = None)
         | Some e \<Rightarrow> rs \<noteq> [] \<and> last rs = Some e \<and> mounts' = [] \<and> envs' = [])"
proof (induction hs arbitrary: i mounts envs s)
  case Nil
  then show ?case by simp
next
  case (Cons h hs)
  obtain hm he r s1 where
    c: "call (CreateDir h container) (\<lambda>r. Handler_CreateDir i (snd (snd r))) s = ((hm, he, r), s1)"
    by (metis prod_cases3 surj_pair)
  have t1: "trace s1 = trace s @ [Handler_CreateDir i r]"
    using call_trace [OF c] by simp
  show ?case
  proof (cases r)
    case (Some e)
    with Cons.prems c have "err = Some e" "mounts' = []" "envs' = []" "s' = s1"
      by simp_all
    with t1 Some have
      "length [r] \<le> length (h # hs) \<and>
       trace s' = trace s @ map2 Handler_CreateDir [i..<i + length [r]] [r] \<and>
       (\<forall>x \<in> set (butlast [r]). x = None) \<and>
       (case err of
          None \<Rightarrow> length [r] = length (h # hs) \<and> (\<forall>x \<in> set [r]. x = None)
        | Some e \<Rightarrow> [r] \<noteq> [] \<and> last [r] = Some e \<and> mounts' = [] \<and> envs' = [])"
      by simp
    then show ?thesis by blast
  next
    case None
    with Cons.prems c have
      "CreateCredDir_loop hs (Suc i) container (mounts @ hm) (envs @ he) s1 = ((mounts', envs', err), s')"
      by simp
    from Cons.IH [OF this] obtain rs where rs: "length rs \<le> length hs"
      "trace s' = trace s1 @ map2 Handler_CreateDir [Suc i..<Suc i + length rs] rs"
      "\<forall>r \<in> set (butlast rs). r = None"
      "case err of
         None \<Rightarrow> length rs = length hs \<and> (\<forall>r \<in> set rs. r = None)
       | Some e \<Rightarrow> rs \<noteq> [] \<and> last rs = Some e \<and> mounts' = [] \<and> envs' = []"
      by blast
    have "[i..<i + length (r # rs)] = i # [Suc i..<Suc i + length rs]"
      using upt_shift [of i "length rs"] by simp
    with rs t1 None have
      "length (r # rs) \<le> length (h # hs) \<and>
       trace s' = trace s @ map2 Handler_CreateDir [i..<i + length (r # rs)] (r # rs) \<and>
       (\<forall>x \<in> set (butlast (r # rs)). x = None) \<and>
       (case err of
          None \<Rightarrow> length (r # rs) = length (h # hs) \<and> (\<forall>x \<in> set (r # rs). x = None)
        | Some e \<Rightarrow> r # rs \<noteq> [] \<and> last (r # rs) = Some e \<and> mounts' = [] \<and> envs' = [])"
      by (cases err) auto
    then show ?thesis by blast
  qed
qed

lemma update_handlers_events:
  "update_handlers hs i creds container s = (err, s') \<Longrightarrow>
   \<exists>rs. length rs \<le> length hs \<and>
        trace s' = trace s @ map2 (\<lambda>j r. Handler_Update j creds r) [i..<i + length rs] rs \<and>
        (\<forall>r \<in> set (butlast rs). r = None) \<and>
        (case err of
           None \<Rightarrow> length rs = length hs \<and> (\<forall>r \<in> set rs. r = None)
         | Some e \<Rightarrow> rs \<noteq> [] \<and> last rs = Some e)"
proof (induction hs arbitrary: i s)
  case Nil
  then show ?case by simp
next
  case (Cons h hs)
  obtain r s1 where c: "call (Update h creds container) (Handler_Update i creds) s = (r, s1)"
    by (cases "call (Update h creds container) (Handler_Update i creds) s")
  have t1: "trace s1 = trace s @ [Handler_Update i creds r]"
    using call_trace [OF c] by simp
  show ?case
  proof (cases r)
    case (Some e)
    with Cons.prems c have "err = Some e" "s' = s1"
      by simp_all
    with t1 Some have
      "length [r] \<le> length (h # hs) \<and>
       trace s' = trace s @ map2 (\<lambda>j r. Handler_Update j creds r) [i..<i + length [r]] [r] \<and>
       (\<forall>x \<in> set (butlast [r]). x = None) \<and>
       (case err of
          None \<Rightarrow> length [r] = length (h # hs) \<and> (\<forall>x \<in> set [r]. x = None)
        | Some e \<Rightarrow> [r] \<noteq> [] \<and> last [r] = Some e)"
      by simp
    then show ?thesis by blast
  next
    case None
    with Cons.prems c have "update_handlers hs (Suc i) creds container s1 = (err, s')"
      by simp
    from Cons.IH [OF this] obtain rs where rs: "length rs \<le> length hs"
      "trace s' = trace s1 @ map2 (\<lambda>j r. Handler_Update j creds r) [Suc i..<Suc i + length rs] rs"
      "\<forall>r \<in> set (butlast rs). r = None"
      "case err of
         None \<Rightarrow> length rs = length hs \<and> (\<forall>r \<in> set rs. r = None)
       | Some e \<Rightarrow> rs \<noteq> [] \<and> last rs = Some e"
      by blast
    have "[i..<i + length (r # rs)] = i # [Suc i..<Suc i + length rs]"
      using upt_shift [of i "length rs"] by simp
    with rs t1 None have
      "length (r # rs) \<le> length (h # hs) \<and>
       trace s' = trace s @ map2 (\<lambda>j r. Handler_Update j creds r) [i..<i + length (r # rs)] (r # rs) \<and>
       (\<forall>x \<in> set (butlast (r # rs)). x = None) \<and>
       (case err of
          None \<Rightarrow> length (r # rs) = length (h # hs) \<and> (\<forall>x \<in> set (r # rs). x = None)
        | Some e \<Rightarrow> r # rs \<noteq> [] \<and> last (r # rs) = Some e)"
      by (cases err) auto
    then show ?thesis by blast
  qed
qed

lemma close_handlers_events:
  "\<exists>rs. length rs = length hs \<and>
        trace (close_handlers hs i cred container s) =
          trace s @ map2 (\<lambda>j r. Handler_Close j cred r) [i..<i + length hs] rs"
proof (induction hs arbitrary: i s)
  case Nil
  then show ?case by simp
next
  case (Cons h hs)
  obtain r s1 where c: "call (Close h cred container) (Handler_Close i cred) s = (r, s1)"
    by (cases "call (Close h cred container) (Handler_Close i cred) s")
  from Cons.IH [of "Suc i" s1] obtain rs where rs: "length rs = length hs"
    "trace (close_handlers hs (Suc i) cred container s1) =
       trace s1 @ map2 (\<lambda>j r. Handler_Close j cred r) [Suc i..<Suc i + length hs] rs"
    by blast
  have "[i..<i + length (h # hs)] = i # [Suc i..<Suc i + length hs]"
    using upt_shift [of i "length hs"] by simp
  with rs c call_trace [OF c] have
    "length (r # rs) = length (h # hs) \<and>
     trace (close_handlers (h # hs) i cred container s) =
       trace s @ map2 (\<lambda>j r. Handler_Close j cred r) [i..<i + length (h # hs)] (r # rs)"
    by simp
  then show ?case by blast
qed

lemma createDir_calls_map2:
  "createDir_calls (map2 Handler_CreateDir js rs) = zip js rs"
  by (induction js rs rule: list_induct2') simp_all

lemma removeDir_calls_map2:
  "removeDir_calls (map2 Handler_RemoveDir js rs) = zip js rs"
  by (induction js rs rule: list_induct2') simp_all

lemma update_calls_map2:
  "update_calls (map2 (\<lambda>j r. Handler_Update j creds r) js rs) = map2 (\<lambda>j r. (j, creds, r)) js rs"
  by (induction js rs rule: list_induct2') simp_all

lemma close_calls_map2:
  "length js = length rs \<Longrightarrow>
   close_calls (map2 (\<lambda>j r. Handler_Close j cred r) js rs) = map (\<lambda>j. (j, cred)) js"
  by (induction js rs rule: list_induct2) simp_all

lemma counters_map2_Update: "counters (map2 (\<lambda>j r. Handler_Update j creds r) js rs) = []"
  by (induction js rs rule: list_induct2') simp_all

lemma durations_map2_Update: "durations (map2 (\<lambda>j r. Handler_Update j creds r) js rs) = []"
  by (induction js rs rule: list_induct2') simp_all

lemma counters_map2_Close: "counters (map2 (\<lambda>j r. Handler_Close j cred r) js rs) = []"
  by (induction js rs rule: list_induct2') simp_all

lemma durations_map2_Close: "durations (map2 (\<lambda>j r. Handler_Close j cred r) js rs) = []"
  by (induction js rs rule: list_induct2') simp_all

lemma templates_map2_Close: "templates (map2 (\<lambda>j r. Handler_Close j cred r) js rs) = []"
  by (induction js rs rule: list_induct2') simp_all

lemma close_calls_map2_Update: "close_calls (map2 (\<lambda>j r. Handler_Update j creds r) js rs) = []"
  by (induction js rs rule: list_induct2') simp_all

lemma fail_fast_shape:
  assumes "length rs \<le> n"
    and "\<forall>r \<in> set (butlast rs). r = None"
    and "case err of None \<Rightarrow> length rs = n \<and> (\<forall>r \<in> set rs. r = None)
         | Some e \<Rightarrow> rs \<noteq> [] \<and> last rs = Some e"
  shows "map fst (zip [0..<0 + length rs] rs) = [0..<length rs] \<and> length rs \<le> n \<and>
         (\<forall>r \<in> set (butlast (map snd (zip [0..<0 + length rs] rs))). r = None) \<and>
         (case err of
            None \<Rightarrow> length rs = n \<and> (\<forall>r \<in> set (map snd (zip [0..<0 + length rs] rs)). r = None)
          | Some e \<Rightarrow> rs \<noteq> [] \<and> snd (last (zip [0..<0 + length rs] rs)) = Some e)"
proof -
  have z: "map snd (zip [0..<0 + length rs] rs) = rs" "map fst (zip [0..<0 + length rs] rs) = [0..<length rs]"
    by simp_all
  have "rs \<noteq> [] \<Longrightarrow> snd (last (zip [0..<0 + length rs] rs)) = last rs"
    using z(1) by (metis last_map map_is_Nil_conv)
  with assms z show ?thesis
    by (cases err) simp_all
qed

section \<open>Fail-fast fan-outs\<close>

lemma CreateCredDir_fail_fast:
  assumes "CreateCredDir c container s = ((mounts, envs, err), s')"
  shows "map fst (createDir_calls (new_events s s')) = [0..<length (new_events s s')] \<and>
         length (new_events s s') \<le> length (handlers c) \<and>
         (\<forall>r \<in> set (butlast (map snd (createDir_calls (new_events s s')))). r = None) \<and>
         (case err of
            None \<Rightarrow> length (new_events s s') = length (handlers c) \<and>
                    (\<forall>r \<in> set (map snd (createDir_calls (new_events s s'))). r = None)
          | Some e \<Rightarrow> new_events s s' \<noteq> [] \<and>
                      snd (last (createDir_calls (new_events s s'))) = Some e \<and>
                      mounts = [] \<and> envs = [])"
proof -
  from assms obtain rs where rs: "length rs \<le> length (handlers c)"
    "trace s' = trace s @ map2 Handler_CreateDir [0..<0 + length rs] rs"
    "\<forall>r \<in> set (butlast rs). r = None"
    "case err of
       None \<Rightarrow> length rs = length (handlers c) \<and> (\<forall>r \<in> set rs. r = None)
     | Some e \<Rightarrow> rs \<noteq> [] \<and> last rs = Some e \<and> mounts = [] \<and> envs = []"
    unfolding CreateCredDir_def by (blast dest: CreateCredDir_loop_events)
  have d: "new_events s s' = map2 Handler_CreateDir [0..<0 + length rs] rs"
    using rs(2) by (rule new_events_append)
  have len: "length (new_events s s') = length rs"
    unfolding d by simp
  then have ne: "new_events s s' \<noteq> [] \<longleftrightarrow> rs \<noteq> []"
    by (metis length_0_conv)
  have calls: "createDir_calls (new_events s s') = zip [0..<0 + length rs] rs"
    unfolding d by (rule createDir_calls_map2)
  have "case err of None \<Rightarrow> length rs = length (handlers c) \<and> (\<forall>r \<in> set rs. r = None)
        | Some e \<Rightarrow> rs \<noteq> [] \<and> last rs = Some e"
    using rs(4) by (cases err) simp_all
  from fail_fast_shape [OF rs(1) rs(3) this] rs(4) show ?thesis
    unfolding calls len ne by (cases err) auto
qed

lemma map2_update_fst:
  "length js = length rs \<Longrightarrow>
   map (\<lambda>(j, cr, r). (j, cr)) (map2 (\<lambda>j r. (j, creds, r)) js rs) = map (\<lambda>j. (j, creds)) js"
  by (induction js rs rule: list_induct2) simp_all

lemma map2_update_snd:
  "length js = length rs \<Longrightarrow> map (\<lambda>(j, cr, r). r) (map2 (\<lambda>j r. (j, creds, r)) js rs) = rs"
  by (induction js rs rule: list_induct2) simp_all

lemma map2_update_last:
  "length js = length rs \<Longrightarrow> rs \<noteq> [] \<Longrightarrow>
   snd (snd (last (map2 (\<lambda>j r. (j, creds, r)) js rs))) = last rs"
  by (induction js rs rule: list_induct2) auto

lemma update_handlers_fail_fast:
  assumes "update_handlers (handlers c) 0 creds container s = (err, s')"
  shows "map (\<lambda>(j, cr, r). (j, cr)) (update_calls (new_events s s')) =
           map (\<lambda>j. (j, creds)) [0..<length (new_events s s')] \<and>
         length (new_events s s') \<le> length (handlers c) \<and>
         (\<forall>r \<in> set (butlast (map (\<lambda>(j, cr, r). r) (update_calls (new_events s s')))). r = None) \<and>
         (case err of
            None \<Rightarrow> length (new_events s s') = length (handlers c) \<and>
                    (\<forall>r \<in> set (map (\<lambda>(j, cr, r). r) (update_calls (new_events s s'))). r = None)
          | Some e \<Rightarrow> new_events s s' \<noteq> [] \<and>
                      snd (snd (last (update_calls (new_events s s')))) = Some e)"
proof -
  from update_handlers_events [OF assms] obtain rs where rs: "length rs \<le> length (handlers c)"
    "trace s' = trace s @ map2 (\<lambda>j r. Handler_Update j creds r) [0..<0 + length rs] rs"
    "\<forall>r \<in> set (butlast rs). r = None"
    "case err of
       None \<Rightarrow> length rs = length (handlers c) \<and> (\<forall>r \<in> set rs. r = None)
     | Some e \<Rightarrow> rs \<noteq> [] \<and> last rs = Some e"
    by blast
  have d: "new_events s s' = map2 (\<lambda>j r. Handler_Update j creds r) [0..<0 + length rs] rs"
    using rs(2) by (rule new_events_append)
  have len: "length (new_events s s') = length rs"
    unfolding d by simp
  then have ne: "new_events s s' \<noteq> [] \<longleftrightarrow> rs \<noteq> []"
    by (metis length_0_conv)
  have calls: "update_calls (new_events s s') = map2 (\<lambda>j r. (j, creds, r)) [0..<0 + length rs] rs"
    unfolding d by (rule update_calls_map2)
  have p1: "map (\<lambda>(j, cr, r). (j, cr)) (map2 (\<lambda>j r. (j, creds, r)) [0..<0 + length rs] rs) =
            map (\<lambda>j. (j, creds)) [0..<length rs]"
    using map2_update_fst [of "[0..<0 + length rs]" rs creds] by simp
  have p2: "map (\<lambda>(j, cr, r). r) (map2 (\<lambda>j r. (j, creds, r)) [0..<0 + length rs] rs) = rs"
    using map2_update_snd [of "[0..<0 + length rs]" rs creds] by simp
  have p3: "rs \<noteq> [] \<Longrightarrow>
            snd (snd (last (map2 (\<lambda>j r. (j, creds, r)) [0..<0 + length rs] rs))) = last rs"
    using map2_update_last [of "[0..<0 + length rs]" rs creds] by simp
  from rs p1 p2 p3 show ?thesis
    unfolding calls len ne by (cases err) simp_all
qed

text \<open>
  C8. The \<open>createDir\<close> fan-out of \<open>CreateCredDir\<close> and the \<open>update\<close> fan-out of the runner
  call the handlers \<open>0, 1, 2, ...\<close> in registration order and nothing else (every new event
  is a call of the fan-out, so nothing is rolled back); every call but the last returned no
  error; when an error is returned it is the one of the last call made, later handlers are
  not called, and \<open>CreateCredDir\<close> returns no mounts and no environment variables; when no
  error is returned every handler was called and none failed.
\<close>

theorem fanout_fail_fast:
  "(CreateCredDir c container s = ((mounts, envs, err), s') \<longrightarrow>
      map fst (createDir_calls (new_events s s')) = [0..<length (new_events s s')] \<and>
      length (new_events s s') \<le> length (handlers c) \<and>
      (\<forall>r \<in> set (butlast (map snd (createDir_calls (new_events s s')))). r = None) \<and>
      (case err of
         None \<Rightarrow> length (new_events s s') = length (handlers c) \<and>
                 (\<forall>r \<in> set (map snd (createDir_calls (new_events s s'))). r = None)
       | Some e \<Rightarrow> new_events s s' \<noteq> [] \<and>
                   snd (last (createDir_calls (new_events s s'))) = Some e \<and>
                   mounts = [] \<and> envs = [])) \<and>
   (update_handlers (handlers c) 0 creds container s = (err, s') \<longrightarrow>
      map (\<lambda>(j, cr, r). (j, cr)) (update_calls (new_events s s')) =
        map (\<lambda>j. (j, creds)) [0..<length (new_events s s')] \<and>
      length (new_events s s') \<le> length (handlers c) \<and>
      (\<forall>r \<in> set (butlast (map (\<lambda>(j, cr, r). r) (update_calls (new_events s s')))). r = None) \<and>
      (case err of
         None \<Rightarrow> length (new_events s s') = length (handlers c) \<and>
                 (\<forall>r \<in> set (map (\<lambda>(j, cr, r). r) (update_calls (new_events s s'))). r = None)
       | Some e \<Rightarrow> new_events s s' \<noteq> [] \<and>
                   snd (snd (last (update_calls (new_events s s')))) = Some e))"
  using CreateCredDir_fail_fast [of c container s mounts envs err s']
    update_handlers_fail_fast [of c creds container s err s']
  by blast


theorem fanout_fail_fast_witness:
  "CreateCredDir (ex_manager [ex_handler, ex_failing_handler, ex_handler]) ex_container ex_state =
     (([], [], Some (New ''mkdir failed'')),
      \<lparr>world = 0,
       trace = [Handler_CreateDir 0 None, Handler_CreateDir 1 (Some (New ''mkdir failed''))]\<rparr>) \<and>
   update_handlers (handlers (ex_manager [ex_handler, ex_failing_handler, ex_handler])) 0
       \<lparr>Cert = ''c'', Key = ''k''\<rparr> ex_container ex_state =
     (Some (New ''update failed''),
      \<lparr>world = 0,
       trace = [Handler_Update 0 \<lparr>Cert = ''c'', Key = ''k''\<rparr> None,
                Handler_Update 1 \<lparr>Cert = ''c'', Key = ''k''\<rparr> (Some (New ''update failed''))]\<rparr>) \<and>
   length (new_events ex_state
      \<lparr>world = 0,
       trace = [Handler_CreateDir 0 None, Handler_CreateDir 1 (Some (New ''mkdir failed''))]\<rparr>)
     \<le> length (handlers (ex_manager [ex_handler, ex_failing_handler, ex_handler]))"
proof -
  have h1: "CreateCredDir (ex_manager [ex_handler, ex_failing_handler, ex_handler]) ex_container ex_state =
     (([], [], Some (New ''mkdir failed'')),
      \<lparr>world = 0,
       trace = [Handler_CreateDir 0 None, Handler_CreateDir 1 (Some (New ''mkdir failed''))]\<rparr>)"
    by (simp add: CreateCredDir_def ex_manager_def ex_handler_def ex_failing_handler_def
        ex_state_def call_def)
  have h2: "update_handlers (handlers (ex_manager [ex_handler, ex_failing_handler, ex_handler])) 0
       \<lparr>Cert = ''c'', Key = ''k''\<rparr> ex_container ex_state =
     (Some (New ''update failed''),
      \<lparr>world = 0,
       trace = [Handler_Update 0 \<lparr>Cert = ''c'', Key = ''k''\<rparr> None,
                Handler_Update 1 \<lparr>Cert = ''c'', Key = ''k''\<rparr> (Some (New ''update failed''))]\<rparr>)"
    by (simp add: ex_manager_def ex_handler_def ex_failing_handler_def ex_state_def call_def)
  from h1 h2 fanout_fail_fast [of "ex_manager [ex_handler, ex_failing_handler, ex_handler]"
      ex_container ex_state "[]" "[]" "Some (New ''mkdir failed'')"
      "\<lparr>world = 0,
        trace = [Handler_CreateDir 0 None, Handler_CreateDir 1 (Some (New ''mkdir failed''))]\<rparr>"]
  show ?thesis by blast
qed

section \<open>Removing the directories\<close>

lemma RemoveCredDir_aggregates:
  assumes "RemoveCredDir c container s = (r, s')"
  shows "length (new_events s s') = length (handlers c) \<and>
         map fst (removeDir_calls (new_events s s')) = [0..<length (handlers c)] \<and>
         (\<exists>err. r = Some err \<and>
            Errors err = filter (\<lambda>x. x \<noteq> None) (map snd (removeDir_calls (new_events s s'))))"
proof -
  obtain err where l: "RemoveCredDir_loop (handlers c) 0 container \<lparr>Errors = []\<rparr> s = (err, s')"
    and r: "r = Some err"
    using assms by (auto simp: RemoveCredDir_def split: prod.splits)
  from RemoveCredDir_loop_events [OF l] obtain rs where rs: "length rs = length (handlers c)"
    "trace s' = trace s @ map2 Handler_RemoveDir [0..<0 + length (handlers c)] rs"
    "Errors err = Errors \<lparr>Errors = []\<rparr> @ filter (\<lambda>r. r \<noteq> None) rs"
    by blast
  have d: "new_events s s' = map2 Handler_RemoveDir [0..<0 + length (handlers c)] rs"
    using rs(2) by (rule new_events_append)
  have calls: "removeDir_calls (new_events s s') = zip [0..<0 + length (handlers c)] rs"
    unfolding d by (rule removeDir_calls_map2)
  show ?thesis
    using rs(1,3) r unfolding calls by (simp add: d)
qed

lemma RemoveCredDir_not_nil: "fst (RemoveCredDir c container s) \<noteq> None"
  by (simp add: RemoveCredDir_def split: prod.splits)

lemma ErrorFormat_loop_separated:
  "\<forall>e \<in> set es. Error e \<noteq> [] \<Longrightarrow> acc \<noteq> [] \<Longrightarrow>
   ErrorFormat_loop (map Some es) acc =
     (if es = [] then acc else acc @ ''; '' @ semicolon_separated (map Error es))"
proof (induction es arbitrary: acc)
  case Nil
  then show ?case by simp
next
  case (Cons e es)
  let ?acc = "acc @ ''; '' @ Error e"
  have step: "ErrorFormat_loop (map Some (e # es)) acc = ErrorFormat_loop (map Some es) ?acc"
    using Cons.prems(2) by simp
  have "ErrorFormat_loop (map Some es) ?acc =
          (if es = [] then ?acc else ?acc @ ''; '' @ semicolon_separated (map Error es))"
    using Cons.prems(1) by (intro Cons.IH) simp_all
  moreover have "semicolon_separated (map Error (e # es)) =
          (if es = [] then Error e else Error e @ ''; '' @ semicolon_separated (map Error es))"
    by (cases es) simp_all
  ultimately show ?case
    unfolding step by simp
qed

lemma ErrorFormat_separated:
  assumes "\<forall>e \<in> set es. Error e \<noteq> []"
  shows "ErrorFormat (map Some es) = semicolon_separated (map Error es)"
proof (cases es)
  case Nil
  then show ?thesis by (simp add: ErrorFormat_def)
next
  case (Cons e es')
  with assms have "Error e \<noteq> []" "\<forall>x \<in> set es'. Error x \<noteq> []"
    by simp_all
  from ErrorFormat_loop_separated [OF this(2) this(1)] Cons show ?thesis
    by (cases es') (simp_all add: ErrorFormat_def)
qed

text \<open>
  C1. \<open>RemoveCredDir\<close> on a manager whose only handler removes its directory without
  error: the handler is called once and the value returned is not nil; it is a
  \<open>*multierror.Error\<close> with an empty list, whose text is empty.
\<close>

theorem RemoveCredDir_without_failure:
  "RemoveCredDir (ex_manager [ex_handler]) ex_container ex_state =
     (Some \<lparr>Errors = []\<rparr>, \<lparr>world = 0, trace = [Handler_RemoveDir 0 None]\<rparr>) \<and>
   multierror_Error_text \<lparr>Errors = []\<rparr> = []"
  by (simp add: RemoveCredDir_def ex_manager_def ex_handler_def ex_state_def call_def
      multierror_Append_def multierror_Error_text_def ErrorFormat_def)

section \<open>Traces of a generation\<close>

lemma generateCreds_events:
  assumes "generateCreds L c container g s = (r, s')"
  shows "\<exists>priv t u e x.
     (r = Inl e \<and> new_events s s' = [Rsa_GenerateKey (Inl e)]) \<or>
     (r = Inl e \<and> new_events s s' = [Rsa_GenerateKey (Inr priv), Clock_Now t, Uuid_NewV4 (Inl e)]) \<or>
     new_events s s' =
       [Rsa_GenerateKey (Inr priv), Clock_Now t, Uuid_NewV4 (Inr u),
        X509_CreateCertificate
          ((createCertificateTemplate L
              (if length (InternalIP container) = 0 then ExternalIP container
               else InternalIP container)
              g t (time_Add t (validityPeriod c)) (OrganizationalUnit container))
           \<lparr>SerialNumber := big_SetBytes u\<rparr>)
          (CaCert c) (Public L priv) (privateKey c) x]"
proof -
  obtain r1 s1 where c1: "call (rsa_GenerateKey L 2048) Rsa_GenerateKey s = (r1, s1)"
    by (cases "call (rsa_GenerateKey L 2048) Rsa_GenerateKey s")
  note t1 = call_trace [OF c1]
  show ?thesis
  proof (cases r1)
    case (Inl e)
    with assms c1 have "r = Inl e" "s' = s1"
      by (simp_all add: generateCreds_def)
    with t1 Inl show ?thesis
      by (auto simp: new_events_def)
  next
    case (Inr priv)
    obtain t s2 where c2: "call (clock_Now c) Clock_Now s1 = (t, s2)"
      by (cases "call (clock_Now c) Clock_Now s1")
    note t2 = call_trace [OF c2]
    obtain r3 s3 where c3: "call (uuid_NewV4 L) Uuid_NewV4 s2 = (r3, s3)"
      by (cases "call (uuid_NewV4 L) Uuid_NewV4 s2")
    note t3 = call_trace [OF c3]
    show ?thesis
    proof (cases r3)
      case (Inl e)
      with assms c1 c2 c3 Inr have "r = Inl e" "s' = s3"
        by (simp_all add: generateCreds_def Let_def)
      with t1 t2 t3 Inr Inl show ?thesis
        by (auto simp: new_events_def)
    next
      case u: (Inr u)
      let ?tm = "(createCertificateTemplate L
              (if length (InternalIP container) = 0 then ExternalIP container
               else InternalIP container)
              g t (time_Add t (validityPeriod c)) (OrganizationalUnit container))
           \<lparr>SerialNumber := big_SetBytes u\<rparr>"
      obtain x s4 where c4: "call (x509_CreateCertificate L ?tm (CaCert c) (Public L priv) (privateKey c))
          (X509_CreateCertificate ?tm (CaCert c) (Public L priv) (privateKey c)) s3 = (x, s4)"
        by (cases "call (x509_CreateCertificate L ?tm (CaCert c) (Public L priv) (privateKey c))
          (X509_CreateCertificate ?tm (CaCert c) (Public L priv) (privateKey c)) s3")
      note t4 = call_trace [OF c4]
      have "s' = s4"
        using assms c1 c2 c3 c4 Inr u
        by (auto simp: generateCreds_def Let_def split: sum.splits option.splits prod.splits)
      with t1 t2 t3 t4 Inr u show ?thesis
        by (auto simp: new_events_def)
    qed
  qed
qed

lemma pemEncode_None:
  "pemEncode L bs blockType writer = (None, out) \<Longrightarrow>
   \<exists>text. pem_Encode L \<lparr>Type = blockType, Bytes = bs\<rparr> = Inr text \<and> out = writer @ text"
  by (auto simp: pemEncode_def split: sum.splits)

lemma generateCreds_success:
  assumes "generateCreds L c container g s = (Inr cred, s')"
  shows "\<exists>priv t u der leafPem caPem.
     new_events s s' =
       [Rsa_GenerateKey (Inr priv), Clock_Now t, Uuid_NewV4 (Inr u),
        X509_CreateCertificate
          ((createCertificateTemplate L
              (if length (InternalIP container) = 0 then ExternalIP container
               else InternalIP container)
              g t (time_Add t (validityPeriod c)) (OrganizationalUnit container))
           \<lparr>SerialNumber := big_SetBytes u\<rparr>)
          (CaCert c) (Public L priv) (privateKey c) (Inr der)] \<and>
     pem_Encode L \<lparr>Type = privateKeyPEMBlockType, Bytes = x509_MarshalPKCS1PrivateKey L priv\<rparr> =
       Inr (Key cred) \<and>
     pem_Encode L \<lparr>Type = certificatePEMBlockType, Bytes = der\<rparr> = Inr leafPem \<and>
     pem_Encode L \<lparr>Type = certificatePEMBlockType, Bytes = Raw (CaCert c)\<rparr> = Inr caPem \<and>
     Cert cred = leafPem @ caPem"
proof -
  obtain r1 s1 where c1: "call (rsa_GenerateKey L 2048) Rsa_GenerateKey s = (r1, s1)"
    by (cases "call (rsa_GenerateKey L 2048) Rsa_GenerateKey s")
  obtain priv where r1: "r1 = Inr priv"
    using assms c1 by (cases r1) (simp_all add: generateCreds_def)
  obtain t s2 where c2: "call (clock_Now c) Clock_Now s1 = (t, s2)"
    by (cases "call (clock_Now c) Clock_Now s1")
  obtain r3 s3 where c3: "call (uuid_NewV4 L) Uuid_NewV4 s2 = (r3, s3)"
    by (cases "call (uuid_NewV4 L) Uuid_NewV4 s2")
  obtain u where r3: "r3 = Inr u"
    using assms c1 r1 c2 c3 by (cases r3) (simp_all add: generateCreds_def Let_def)
  let ?tm = "(createCertificateTemplate L
              (if length (InternalIP container) = 0 then ExternalIP container
               else InternalIP container)
              g t (time_Add t (validityPeriod c)) (OrganizationalUnit container))
           \<lparr>SerialNumber := big_SetBytes u\<rparr>"
  obtain x s4 where c4: "call (x509_CreateCertificate L ?tm (CaCert c) (Public L priv) (privateKey c))
      (X509_CreateCertificate ?tm (CaCert c) (Public L priv) (privateKey c)) s3 = (x, s4)"
    by (cases "call (x509_CreateCertificate L ?tm (CaCert c) (Public L priv) (privateKey c))
      (X509_CreateCertificate ?tm (CaCert c) (Public L priv) (privateKey c)) s3")
  obtain der where x: "x = Inr der"
    using assms c1 r1 c2 c3 r3 c4 by (cases x) (simp_all add: generateCreds_def Let_def)
  obtain e1 keyBuf where p1:
    "pemEncode L (x509_MarshalPKCS1PrivateKey L priv) privateKeyPEMBlockType [] = (e1, keyBuf)"
    by (cases "pemEncode L (x509_MarshalPKCS1PrivateKey L priv) privateKeyPEMBlockType []")
  obtain e2 buf2 where p2: "pemEncode L der certificatePEMBlockType [] = (e2, buf2)"
    by (cases "pemEncode L der certificatePEMBlockType []")
  obtain e3 buf3 where p3: "pemEncode L (Raw (CaCert c)) certificatePEMBlockType buf2 = (e3, buf3)"
    by (cases "pemEncode L (Raw (CaCert c)) certificatePEMBlockType buf2")
  have run: "e1 = None \<and> e2 = None \<and> e3 = None \<and> cred = \<lparr>Cert = buf3, Key = keyBuf\<rparr> \<and> s' = s4"
    using assms c1 r1 c2 c3 r3 c4 x p1 p2 p3
    by (cases e1; cases e2; cases e3) (simp_all add: generateCreds_def Let_def)
  from run p1 pemEncode_None have k:
    "pem_Encode L \<lparr>Type = privateKeyPEMBlockType, Bytes = x509_MarshalPKCS1PrivateKey L priv\<rparr> =
       Inr (Key cred)"
    by fastforce
  from run p2 pemEncode_None obtain leafPem where leaf:
    "pem_Encode L \<lparr>Type = certificatePEMBlockType, Bytes = der\<rparr> = Inr leafPem" "buf2 = leafPem"
    by fastforce
  from run p3 pemEncode_None obtain caPem where ca:
    "pem_Encode L \<lparr>Type = certificatePEMBlockType, Bytes = Raw (CaCert c)\<rparr> = Inr caPem"
    "buf3 = buf2 @ caPem"
    by fastforce
  have "trace s' = trace s @
       [Rsa_GenerateKey (Inr priv), Clock_Now t, Uuid_NewV4 (Inr u),
        X509_CreateCertificate ?tm (CaCert c) (Public L priv) (privateKey c) (Inr der)]"
    using call_trace [OF c1] call_trace [OF c2] call_trace [OF c3] call_trace [OF c4] run r1 r3 x
    by simp
  then have "new_events s s' =
       [Rsa_GenerateKey (Inr priv), Clock_Now t, Uuid_NewV4 (Inr u),
        X509_CreateCertificate ?tm (CaCert c) (Public L priv) (privateKey c) (Inr der)]"
    by (rule new_events_append)
  with k leaf ca run show ?thesis
    by auto
qed

section \<open>Runs of the concrete manager\<close>

lemma ex_generateCreds:
  "generateCreds ex_library (ex_manager hs) ex_container guid \<lparr>world = w, trace = tr\<rparr> =
     (Inr ex_creds, \<lparr>world = w + 3, trace = tr @ ex_generation guid w\<rparr>)"
  by (simp add: generateCreds_def ex_library_def ex_manager_def ex_container_def call_def
      createCertificateTemplate_def time_Add_def big_SetBytes_def pemEncode_def
      privateKeyPEMBlockType_def certificatePEMBlockType_def ex_creds_def ex_template_def
      ex_generation_def ex_CaCert_def Hour_def Minute_def
      KeyUsageDigitalSignature_def KeyUsageKeyEncipherment_def KeyUsageKeyAgreement_def)

lemma ex_generateCreds_broken:
  "generateCreds ex_broken_library (ex_manager hs) ex_container guid \<lparr>world = w, trace = tr\<rparr> =
     (Inl (New ''no entropy''), \<lparr>world = w, trace = tr @ [Rsa_GenerateKey (Inl (New ''no entropy''))]\<rparr>)"
  by (simp add: generateCreds_def ex_broken_library_def ex_library_def call_def)

section \<open>The generated certificate and credential\<close>

lemma ex_generateCreds_state:
  "generateCreds ex_library (ex_manager [ex_handler]) ex_container (Guid ex_container) ex_state =
     (Inr ex_creds, \<lparr>world = 3, trace = ex_generation ''guid-1'' 0\<rparr>)"
  using ex_generateCreds [of "[ex_handler]" "Guid ex_container" 0 "[]"]
  by (simp add: ex_state_def ex_container_def)

lemma ex_new_events:
  "new_events ex_state \<lparr>world = 3, trace = ex_generation ''guid-1'' 0\<rparr> = ex_generation ''guid-1'' 0"
  by (simp add: new_events_def ex_state_def)

lemma asn1_Time_le: "asn1_Time t \<le> t"
proof -
  have "t div 1000000000 * 1000000000 = t - t mod 1000000000"
    by (simp add: minus_mod_eq_div_mult)
  moreover have "0 \<le> t mod 1000000000"
    by simp
  ultimately show ?thesis
    by (simp add: asn1_Time_def)
qed

lemma asn1_Time_gt: "t < asn1_Time t + 1000000000"
proof -
  have "t div 1000000000 * 1000000000 = t - t mod 1000000000"
    by (simp add: minus_mod_eq_div_mult)
  moreover have "t mod 1000000000 < 1000000000"
    by simp
  ultimately show ?thesis
    by (simp add: asn1_Time_def)
qed

lemma asn1_Time_add_ge: "1000000000 \<le> v \<Longrightarrow> t \<le> asn1_Time (t + v)"
  using asn1_Time_gt [of "t + v"] by simp

lemma asn1_Time_window: "\<bar>asn1_Time (t + v) - asn1_Time t - v\<bar> < 1000000000"
  using asn1_Time_gt [of "t + v"] asn1_Time_le [of "t + v"] asn1_Time_gt [of t] asn1_Time_le [of t]
  by simp

lemma asn1_Time_whole: "v mod 1000000000 = 0 \<Longrightarrow> asn1_Time (t + v) - asn1_Time t = v"
proof -
  assume "v mod 1000000000 = 0"
  then obtain k where v: "v = k * 1000000000"
    by (metis mod_eq_0_iff_dvd dvd_def mult.commute)
  show ?thesis
    unfolding v asn1_Time_def by (simp add: algebra_simps)
qed

lemma ex_subsecond_generateCreds:
  "generateCreds ex_library (ex_subsecond_manager period) ex_container guid
     \<lparr>world = w, trace = tr\<rparr> =
     (Inr ex_creds,
      \<lparr>world = w + 3,
       trace = tr @
         [Rsa_GenerateKey (Inr (PrivateKey w)),
          Clock_Now 1700000000,
          Uuid_NewV4 (Inr [0, 0, 0, 0, 0, 0, 0, 0, 0, 0, 0, 0, 0, 0, 0, 7]),
          X509_CreateCertificate
            ((ex_template guid 1700000000)\<lparr>NotAfter := 1700000000 + sint period\<rparr>) ex_CaCert
            (PublicKey w) (PrivateKey 0) (Inr [48, 130])]\<rparr>)"
  by (simp add: generateCreds_def ex_library_def ex_subsecond_manager_def ex_container_def call_def
      createCertificateTemplate_def time_Add_def big_SetBytes_def pemEncode_def
      privateKeyPEMBlockType_def certificatePEMBlockType_def ex_creds_def ex_template_def
      ex_CaCert_def
      KeyUsageDigitalSignature_def KeyUsageKeyEncipherment_def KeyUsageKeyAgreement_def)


lemma ex_subsecond_state:
  "generateCreds ex_library (ex_subsecond_manager period) ex_container ''guid-1'' ex_state =
     (Inr ex_creds,
      \<lparr>world = 3,
       trace =
         [Rsa_GenerateKey (Inr (PrivateKey 0)),
          Clock_Now 1700000000,
          Uuid_NewV4 (Inr [0, 0, 0, 0, 0, 0, 0, 0, 0, 0, 0, 0, 0, 0, 0, 7]),
          X509_CreateCertificate
            ((ex_template ''guid-1'' 1700000000)\<lparr>NotAfter := 1700000000 + sint period\<rparr>) ex_CaCert
            (PublicKey 0) (PrivateKey 0) (Inr [48, 130])]\<rparr>)"
  using ex_subsecond_generateCreds [of period "''guid-1''" 0 "[]"] by (simp add: ex_state_def)

text \<open>
  C6 fails on the certificate that is signed. With the clock at 1.7 seconds and a validity
  period of 1.5 seconds the generation succeeds; the certificate's \<open>NotBefore\<close> is 1
  second, not the time read, and its \<open>NotAfter - NotBefore\<close> is 2 seconds, not the
  validity period. With a validity period of 0.2 seconds its \<open>NotAfter\<close> is 1 second,
  before the time read.
\<close>

theorem signed_validity_window_counterexample:
  "fst (generateCreds ex_library (ex_subsecond_manager 1500000000) ex_container ''guid-1''
      ex_state) = Inr ex_creds \<and>
   clock_reads (trace (snd (generateCreds ex_library (ex_subsecond_manager 1500000000)
      ex_container ''guid-1'' ex_state))) = [1700000000] \<and>
   map signed_NotBefore (templates (trace (snd (generateCreds ex_library
      (ex_subsecond_manager 1500000000) ex_container ''guid-1'' ex_state)))) = [1000000000] \<and>
   map (\<lambda>tm. signed_NotAfter tm - signed_NotBefore tm) (templates (trace (snd (generateCreds
      ex_library (ex_subsecond_manager 1500000000) ex_container ''guid-1'' ex_state)))) =
     [2000000000] \<and>
   sint (validityPeriod (ex_subsecond_manager 1500000000)) = 1500000000 \<and>
   fst (generateCreds ex_library (ex_subsecond_manager 200000000) ex_container ''guid-1''
      ex_state) = Inr ex_creds \<and>
   map signed_NotAfter (templates (trace (snd (generateCreds ex_library
      (ex_subsecond_manager 200000000) ex_container ''guid-1'' ex_state)))) = [1000000000]"
  unfolding ex_subsecond_state fst_conv snd_conv
  by (simp add: signed_NotBefore_def signed_NotAfter_def asn1_Time_def ex_template_def
      ex_subsecond_manager_def)

text \<open>
  C6, as the code has it. When \<open>generateCreds\<close> succeeds it has handed exactly one
  template to \<open>x509.CreateCertificate\<close>. The \<open>NotBefore\<close> of the template is the time that
  the generation read from the clock, and its \<open>NotAfter - NotBefore\<close> is the configured
  validity period exactly. The certificate signed holds the two times cut down to whole
  seconds: its \<open>NotBefore\<close> is at most the time read and less than a second before it; its
  \<open>NotAfter - NotBefore\<close> differs from the validity period by less than a second, and is
  the validity period when that is a whole number of seconds; and the time read is at most
  its \<open>NotAfter\<close> when the validity period is at least one second.
\<close>

theorem signed_validity_window:
  assumes "generateCreds L c container g s = (Inr cred, s')"
  shows "length (templates (new_events s s')) = 1 \<and>
         map NotBefore (templates (new_events s s')) = clock_reads (new_events s s') \<and>
         (\<forall>tm \<in> set (templates (new_events s s')).
            NotAfter tm - NotBefore tm = sint (validityPeriod c) \<and>
            (\<forall>now \<in> set (clock_reads (new_events s s')).
               signed_NotBefore tm \<le> now \<and> now < signed_NotBefore tm + 1000000000 \<and>
               (1000000000 \<le> sint (validityPeriod c) \<longrightarrow> now \<le> signed_NotAfter tm)) \<and>
            \<bar>signed_NotAfter tm - signed_NotBefore tm - sint (validityPeriod c)\<bar> < 1000000000 \<and>
            (sint (validityPeriod c) mod 1000000000 = 0 \<longrightarrow>
               signed_NotAfter tm - signed_NotBefore tm = sint (validityPeriod c)))"
proof -
  from generateCreds_success [OF assms] obtain priv t u der where
    "new_events s s' =
       [Rsa_GenerateKey (Inr priv), Clock_Now t, Uuid_NewV4 (Inr u),
        X509_CreateCertificate
          ((createCertificateTemplate L
              (if length (InternalIP container) = 0 then ExternalIP container
               else InternalIP container)
              g t (time_Add t (validityPeriod c)) (OrganizationalUnit container))
           \<lparr>SerialNumber := big_SetBytes u\<rparr>)
          (CaCert c) (Public L priv) (privateKey c) (Inr der)]"
    by blast
  then show ?thesis
    using asn1_Time_le [of t] asn1_Time_gt [of t] asn1_Time_window [of t "sint (validityPeriod c)"]
      asn1_Time_add_ge [of "sint (validityPeriod c)" t]
      asn1_Time_whole [of "sint (validityPeriod c)" t]
    by (simp add: createCertificateTemplate_def time_Add_def signed_NotBefore_def
        signed_NotAfter_def)
qed

theorem signed_validity_window_witness:
  "sint (validityPeriod (ex_manager [ex_handler])) = 7200000000000 \<and>
   templates (ex_generation ''guid-1'' 0) = [ex_template ''guid-1'' 1000000000] \<and>
   clock_reads (ex_generation ''guid-1'' 0) = [1000000000] \<and>
   NotBefore (ex_template ''guid-1'' 1000000000) = 1000000000 \<and>
   NotAfter (ex_template ''guid-1'' 1000000000) - NotBefore (ex_template ''guid-1'' 1000000000) =
     7200000000000 \<and>
   signed_NotBefore (ex_template ''guid-1'' 1000000000) \<le> 1000000000 \<and>
   1000000000 \<le> signed_NotAfter (ex_template ''guid-1'' 1000000000) \<and>
   signed_NotAfter (ex_template ''guid-1'' 1000000000) -
     signed_NotBefore (ex_template ''guid-1'' 1000000000) = 7200000000000"
proof -
  have v: "sint (validityPeriod (ex_manager [ex_handler])) = 7200000000000"
    by (simp add: ex_manager_def Hour_def Minute_def)
  have e: "templates (ex_generation ''guid-1'' 0) = [ex_template ''guid-1'' 1000000000]"
    "clock_reads (ex_generation ''guid-1'' 0) = [1000000000]"
    by (simp_all add: ex_generation_def)
  from signed_validity_window [OF ex_generateCreds_state] show ?thesis
    unfolding ex_new_events v e by simp
qed

text \<open>
  C7. Every template that \<open>generateCreds\<close> hands to \<open>x509.CreateCertificate\<close> (exactly
  one when it succeeds) has as its IP addresses the parsed internal IP of the container
  alone when that is not empty, else the parsed external IP alone when that is not empty,
  else none.
\<close>

theorem certificate_ip_san:
  assumes "generateCreds L c container g s = (r, s')"
  shows "(\<forall>tm \<in> set (templates (new_events s s')).
            IPAddresses tm =
              (if InternalIP container \<noteq> [] then [net_ParseIP L (InternalIP container)]
               else if ExternalIP container \<noteq> [] then [net_ParseIP L (ExternalIP container)]
               else [])) \<and>
         (\<forall>cred. r = Inr cred \<longrightarrow> length (templates (new_events s s')) = 1)"
proof -
  from generateCreds_events [OF assms] obtain priv t u e x where
    "new_events s s' = [Rsa_GenerateKey (Inl e)] \<or>
     new_events s s' = [Rsa_GenerateKey (Inr priv), Clock_Now t, Uuid_NewV4 (Inl e)] \<or>
     new_events s s' =
       [Rsa_GenerateKey (Inr priv), Clock_Now t, Uuid_NewV4 (Inr u),
        X509_CreateCertificate
          ((createCertificateTemplate L
              (if length (InternalIP container) = 0 then ExternalIP container
               else InternalIP container)
              g t (time_Add t (validityPeriod c)) (OrganizationalUnit container))
           \<lparr>SerialNumber := big_SetBytes u\<rparr>)
          (CaCert c) (Public L priv) (privateKey c) x]"
    by blast
  then have "\<forall>tm \<in> set (templates (new_events s s')).
            IPAddresses tm =
              (if InternalIP container \<noteq> [] then [net_ParseIP L (InternalIP container)]
               else if ExternalIP container \<noteq> [] then [net_ParseIP L (ExternalIP container)]
               else [])"
    by (auto simp: createCertificateTemplate_def)
  moreover have "length (templates (new_events s s')) = 1" if "r = Inr cred" for cred
  proof -
    from assms that have "generateCreds L c container g s = (Inr cred, s')"
      by simp
    from generateCreds_success [OF this] show ?thesis
      by auto
  qed
  ultimately show ?thesis
    by blast
qed

theorem certificate_ip_san_witness:
  "InternalIP ex_container \<noteq> [] \<and>
   net_ParseIP ex_library (InternalIP ex_container) = [10, 0, 0, 5] \<and>
   templates (ex_generation ''guid-1'' 0) = [ex_template ''guid-1'' 1000000000] \<and>
   IPAddresses (ex_template ''guid-1'' 1000000000) = [[10, 0, 0, 5]]"
proof -
  have i: "InternalIP ex_container \<noteq> []"
    "net_ParseIP ex_library (InternalIP ex_container) = [10, 0, 0, 5]"
    by (simp_all add: ex_container_def ex_library_def)
  have e: "templates (ex_generation ''guid-1'' 0) = [ex_template ''guid-1'' 1000000000]"
    by (simp add: ex_generation_def)
  from certificate_ip_san [OF ex_generateCreds_state] i show ?thesis
    unfolding ex_new_events e by simp
qed

text \<open>
  C9. When \<open>generateCreds\<close> succeeds, the key \<open>priv\<close> that \<open>rsa.GenerateKey\<close> returned in
  this generation is the one whose public half was given to \<open>x509.CreateCertificate\<close>,
  which returned the signed leaf; \<open>Cert\<close> is the PEM text of the leaf (type
  \<open>CERTIFICATE\<close>) followed by the PEM text of the raw CA certificate (type
  \<open>CERTIFICATE\<close>) and nothing else; \<open>Key\<close> is the PEM text of one block of type
  \<open>RSA PRIVATE KEY\<close> that holds the PKCS#1 encoding of \<open>priv\<close>.
\<close>

theorem credential_pem_chain:
  assumes "generateCreds L c container g s = (Inr cred, s')"
  shows "\<exists>priv t u tm leaf leafPem caPem.
     new_events s s' =
       [Rsa_GenerateKey (Inr priv), Clock_Now t, Uuid_NewV4 (Inr u),
        X509_CreateCertificate tm (CaCert c) (Public L priv) (privateKey c) (Inr leaf)] \<and>
     pem_Encode L \<lparr>Type = ''CERTIFICATE'', Bytes = leaf\<rparr> = Inr leafPem \<and>
     pem_Encode L \<lparr>Type = ''CERTIFICATE'', Bytes = Raw (CaCert c)\<rparr> = Inr caPem \<and>
     Cert cred = leafPem @ caPem \<and>
     pem_Encode L \<lparr>Type = ''RSA PRIVATE KEY'', Bytes = x509_MarshalPKCS1PrivateKey L priv\<rparr> =
       Inr (Key cred)"
  using generateCreds_success [OF assms]
  unfolding certificatePEMBlockType_def privateKeyPEMBlockType_def by blast

theorem credential_pem_chain_witness:
  "\<exists>priv t u tm leaf leafPem caPem.
     ex_generation ''guid-1'' 0 =
       [Rsa_GenerateKey (Inr priv), Clock_Now t, Uuid_NewV4 (Inr u),
        X509_CreateCertificate tm (CaCert (ex_manager [ex_handler])) (Public ex_library priv)
          (privateKey (ex_manager [ex_handler])) (Inr leaf)] \<and>
     pem_Encode ex_library \<lparr>Type = ''CERTIFICATE'', Bytes = leaf\<rparr> = Inr leafPem \<and>
     pem_Encode ex_library \<lparr>Type = ''CERTIFICATE'', Bytes = Raw (CaCert (ex_manager [ex_handler]))\<rparr> =
       Inr caPem \<and>
     Cert ex_creds = leafPem @ caPem \<and>
     pem_Encode ex_library
       \<lparr>Type = ''RSA PRIVATE KEY'', Bytes = x509_MarshalPKCS1PrivateKey ex_library priv\<rparr> =
       Inr (Key ex_creds)"
  using credential_pem_chain [OF ex_generateCreds_state] unfolding ex_new_events .

section \<open>What the steps of the runner append\<close>

lemma generateCreds_quiet:
  assumes "generateCreds L c container g s = (r, s')"
  shows "trace s' = trace s @ new_events s s'"
    and "counters (new_events s s') = []"
    and "durations (new_events s s') = []"
    and "update_calls (new_events s s') = []"
    and "close_calls (new_events s s') = []"
    and "\<forall>tm \<in> set (templates (new_events s s')). CommonName (Subject tm) = g"
    and "length (templates (new_events s s')) \<le> 1"
    and "length (clock_reads (new_events s s')) \<le> 1"
proof -
  obtain r1 s1 where c1: "call (rsa_GenerateKey L 2048) Rsa_GenerateKey s = (r1, s1)"
    by (cases "call (rsa_GenerateKey L 2048) Rsa_GenerateKey s")
  note t1 = call_trace [OF c1]
  have "\<exists>d. trace s' = trace s @ d"
  proof (cases r1)
    case (Inl e)
    with assms c1 have "s' = s1"
      by (simp add: generateCreds_def)
    with t1 show ?thesis by simp
  next
    case (Inr priv)
    obtain t s2 where c2: "call (clock_Now c) Clock_Now s1 = (t, s2)"
      by (cases "call (clock_Now c) Clock_Now s1")
    note t2 = call_trace [OF c2]
    obtain r3 s3 where c3: "call (uuid_NewV4 L) Uuid_NewV4 s2 = (r3, s3)"
      by (cases "call (uuid_NewV4 L) Uuid_NewV4 s2")
    note t3 = call_trace [OF c3]
    show ?thesis
    proof (cases r3)
      case (Inl e)
      with assms c1 c2 c3 Inr have "s' = s3"
        by (simp add: generateCreds_def Let_def)
      with t1 t2 t3 show ?thesis by simp
    next
      case u: (Inr u)
      let ?tm = "(createCertificateTemplate L
              (if length (InternalIP container) = 0 then ExternalIP container
               else InternalIP container)
              g t (time_Add t (validityPeriod c)) (OrganizationalUnit container))
           \<lparr>SerialNumber := big_SetBytes u\<rparr>"
      obtain x s4 where c4: "call (x509_CreateCertificate L ?tm (CaCert c) (Public L priv) (privateKey c))
          (X509_CreateCertificate ?tm (CaCert c) (Public L priv) (privateKey c)) s3 = (x, s4)"
        by (cases "call (x509_CreateCertificate L ?tm (CaCert c) (Public L priv) (privateKey c))
          (X509_CreateCertificate ?tm (CaCert c) (Public L priv) (privateKey c)) s3")
      note t4 = call_trace [OF c4]
      have "s' = s4"
        using assms c1 c2 c3 c4 Inr u
        by (auto simp: generateCreds_def Let_def split: sum.splits option.splits prod.splits)
      with t1 t2 t3 t4 show ?thesis by simp
    qed
  qed
  then show "trace s' = trace s @ new_events s s'"
    by (auto simp: new_events_def)
  from generateCreds_events [OF assms] obtain priv t u e x where shape:
    "new_events s s' = [Rsa_GenerateKey (Inl e)] \<or>
     new_events s s' = [Rsa_GenerateKey (Inr priv), Clock_Now t, Uuid_NewV4 (Inl e)] \<or>
     new_events s s' =
       [Rsa_GenerateKey (Inr priv), Clock_Now t, Uuid_NewV4 (Inr u),
        X509_CreateCertificate
          ((createCertificateTemplate L
              (if length (InternalIP container) = 0 then ExternalIP container
               else InternalIP container)
              g t (time_Add t (validityPeriod c)) (OrganizationalUnit container))
           \<lparr>SerialNumber := big_SetBytes u\<rparr>)
          (CaCert c) (Public L priv) (privateKey c) x]"
    by blast
  from shape show "counters (new_events s s') = []" by auto
  from shape show "durations (new_events s s') = []" by auto
  from shape show "update_calls (new_events s s') = []" by auto
  from shape show "close_calls (new_events s s') = []" by auto
  from shape show "\<forall>tm \<in> set (templates (new_events s s')). CommonName (Subject tm) = g"
    by (auto simp: createCertificateTemplate_def)
  from shape show "length (templates (new_events s s')) \<le> 1" by auto
  from shape show "length (clock_reads (new_events s s')) \<le> 1" by auto
qed

lemma update_handlers_quiet:
  assumes "update_handlers hs i creds container s = (err, s')"
  shows "trace s' = trace s @ new_events s s'"
    and "counters (new_events s s') = []"
    and "durations (new_events s s') = []"
    and "close_calls (new_events s s') = []"
proof -
  from update_handlers_events [OF assms] obtain rs where
    t: "trace s' = trace s @ map2 (\<lambda>j r. Handler_Update j creds r) [i..<i + length rs] rs"
    by blast
  then have d: "new_events s s' = map2 (\<lambda>j r. Handler_Update j creds r) [i..<i + length rs] rs"
    by (rule new_events_append)
  from t d show "trace s' = trace s @ new_events s s'" by simp
  show "counters (new_events s s') = []"
    unfolding d by (rule counters_map2_Update)
  show "durations (new_events s s') = []"
    unfolding d by (rule durations_map2_Update)
  show "close_calls (new_events s s') = []"
    unfolding d by (rule close_calls_map2_Update)
qed

lemma close_handlers_quiet:
  shows "trace (close_handlers hs 0 cred container s) =
           trace s @ new_events s (close_handlers hs 0 cred container s)"
    and "counters (new_events s (close_handlers hs 0 cred container s)) = []"
    and "durations (new_events s (close_handlers hs 0 cred container s)) = []"
    and "templates (new_events s (close_handlers hs 0 cred container s)) = []"
    and "close_calls (new_events s (close_handlers hs 0 cred container s)) =
           map (\<lambda>j. (j, cred)) [0..<length hs]"
proof -
  from close_handlers_events [of hs 0 cred container s] obtain rs where len: "length rs = length hs"
    and t: "trace (close_handlers hs 0 cred container s) =
          trace s @ map2 (\<lambda>j r. Handler_Close j cred r) [0..<0 + length hs] rs"
    by blast
  from t have d: "new_events s (close_handlers hs 0 cred container s) =
      map2 (\<lambda>j r. Handler_Close j cred r) [0..<0 + length hs] rs"
    by (rule new_events_append)
  from t d show "trace (close_handlers hs 0 cred container s) =
           trace s @ new_events s (close_handlers hs 0 cred container s)" by simp
  show "counters (new_events s (close_handlers hs 0 cred container s)) = []"
    unfolding d by (rule counters_map2_Close)
  show "durations (new_events s (close_handlers hs 0 cred container s)) = []"
    unfolding d by (rule durations_map2_Close)
  show "templates (new_events s (close_handlers hs 0 cred container s)) = []"
    unfolding d by (rule templates_map2_Close)
  show "close_calls (new_events s (close_handlers hs 0 cred container s)) =
           map (\<lambda>j. (j, cred)) [0..<length hs]"
    unfolding d using close_calls_map2 [of "[0..<0 + length hs]" rs cred] len by simp
qed

lemma new_events_trans:
  "trace s1 = trace s @ d1 \<Longrightarrow> trace s2 = trace s1 @ d2 \<Longrightarrow> new_events s s2 = d1 @ d2"
  by (simp add: new_events_def)

section \<open>Shutdown\<close>

lemma certificate_template_count:
  assumes "generateCreds L c container g s = (Inr cred, s')"
  shows "length (templates (new_events s s')) = 1"
  using generateCreds_success [OF assms] by auto

lemma Runner_signalled_events:
  assumes gen: "generateCreds L c container [] s = (r, s1)"
    and run: "Runner_signalled L c container sig s = (res, s')"
  shows "(\<forall>tm \<in> set (templates (new_events s s')). CommonName (Subject tm) = []) \<and>
         durations (new_events s s') = [] \<and>
         (case r of
            Inr cred \<Rightarrow> res = None \<and> length (templates (new_events s s')) = 1 \<and>
                        close_calls (new_events s s') = map (\<lambda>j. (j, cred)) [0..<length (handlers c)] \<and>
                        counters (new_events s s') = []
          | Inl err \<Rightarrow> res = Some err \<and> close_calls (new_events s s') = [] \<and>
                       counters (new_events s s') = [CredCreationFailedCount])"
proof (cases r)
  case (Inl err)
  with gen run have res: "res = Some err" and s': "s' = emit (IncrementCounter CredCreationFailedCount) s1"
    by (simp_all add: Runner_signalled_def)
  have t1: "trace s1 = trace s @ new_events s s1"
    by (rule generateCreds_quiet(1) [OF gen])
  have t2: "trace s' = trace s1 @ [IncrementCounter CredCreationFailedCount]"
    unfolding s' by (rule trace_emit)
  from t1 t2 have "new_events s s' = new_events s s1 @ [IncrementCounter CredCreationFailedCount]"
    by (rule new_events_trans)
  with generateCreds_quiet [OF gen] res Inl show ?thesis
    by (simp add: templates_append close_calls_append counters_append durations_append)
next
  case (Inr cred)
  with gen run have res: "res = None" and s': "s' = close_handlers (handlers c) 0 cred container s1"
    by (simp_all add: Runner_signalled_def)
  have t1: "trace s1 = trace s @ new_events s s1"
    by (rule generateCreds_quiet(1) [OF gen])
  have t2: "trace s' = trace s1 @ new_events s1 s'"
    unfolding s' by (rule close_handlers_quiet(1))
  from t1 t2 have d: "new_events s s' = new_events s s1 @ new_events s1 s'"
    by (rule new_events_trans)
  from gen Inr have "generateCreds L c container [] s = (Inr cred, s1)"
    by simp
  from certificate_template_count [OF this] have one: "length (templates (new_events s s1)) = 1" .
  have q: "counters (new_events s1 s') = []" "durations (new_events s1 s') = []"
    "templates (new_events s1 s') = []"
    "close_calls (new_events s1 s') = map (\<lambda>j. (j, cred)) [0..<length (handlers c)]"
    unfolding s' by (rule close_handlers_quiet)+
  from generateCreds_quiet(2-7) [OF gen] q res Inr one show ?thesis
    by (simp add: d templates_append close_calls_append counters_append durations_append)
qed






section \<open>Issuance cycles\<close>

lemma Runner_regenerate_events:
  assumes now: "call (clock_Now c) Clock_Now s = (start, s1)"
    and gen: "generateCreds L c container (Guid container) s1 = (r, s2)"
    and since: "call (clock_Since c start) (Clock_Since start) s2 = (dur, s3)"
    and run: "Runner_regenerate L c container s = (res, s')"
  shows "case r of
           Inl err \<Rightarrow>
             res = Some err \<and>
             new_events s s' =
               Clock_Now start # new_events s1 s2 @
               [Clock_Since start dur, IncrementCounter CredCreationFailedCount]
         | Inr creds \<Rightarrow>
             (\<exists>du. new_events s s' =
                    Clock_Now start # new_events s1 s2 @
                    [Clock_Since start dur, IncrementCounter CredCreationSucceededCount,
                     SendDuration CredCreationSucceededDuration dur] @ du \<and>
                  counters du = [] \<and> durations du = [])"
proof -
  have t1: "trace s1 = trace s @ [Clock_Now start]"
    by (rule call_trace [OF now])
  have t2: "trace s2 = trace s1 @ new_events s1 s2"
    by (rule generateCreds_quiet(1) [OF gen])
  have t3: "trace s3 = trace s2 @ [Clock_Since start dur]"
    by (rule call_trace [OF since])
  show ?thesis
  proof (cases r)
    case (Inl err)
    with now gen since run have res: "res = Some err"
      and s': "s' = emit (IncrementCounter CredCreationFailedCount) s3"
      by (simp_all add: Runner_regenerate_def)
    have "trace s' = trace s @ Clock_Now start # new_events s1 s2 @
               [Clock_Since start dur, IncrementCounter CredCreationFailedCount]"
      unfolding s' trace_emit t3 t2 t1 by simp
    then have "new_events s s' = Clock_Now start # new_events s1 s2 @
               [Clock_Since start dur, IncrementCounter CredCreationFailedCount]"
      by (rule new_events_append)
    with res Inl show ?thesis by simp
  next
    case (Inr creds)
    let ?s5 = "emit (SendDuration CredCreationSucceededDuration dur)
                 (emit (IncrementCounter CredCreationSucceededCount) s3)"
    obtain err s6 where upd: "update_handlers (handlers c) 0 creds container ?s5 = (err, s6)"
      by (cases "update_handlers (handlers c) 0 creds container ?s5")
    have t5: "trace ?s5 = trace s @ Clock_Now start # new_events s1 s2 @
               [Clock_Since start dur, IncrementCounter CredCreationSucceededCount,
                SendDuration CredCreationSucceededDuration dur]"
      unfolding trace_emit t3 t2 t1 by simp
    have t6: "trace s6 = trace ?s5 @ new_events ?s5 s6"
      by (rule update_handlers_quiet(1) [OF upd])
    let ?tail = "case err of None \<Rightarrow>
        [Timer_Reset (calculateCredentialRotationPeriod (validityPeriod c))] | Some e \<Rightarrow> []"
    have "trace s' = trace s6 @ ?tail"
      using now gen since run upd Inr
      by (cases err) (auto simp: Runner_regenerate_def Let_def trace_emit)
    then have "trace s' = trace s @ (Clock_Now start # new_events s1 s2 @
               [Clock_Since start dur, IncrementCounter CredCreationSucceededCount,
                SendDuration CredCreationSucceededDuration dur] @ (new_events ?s5 s6 @ ?tail))"
      unfolding t6 t5 by simp
    then have "new_events s s' = Clock_Now start # new_events s1 s2 @
               [Clock_Since start dur, IncrementCounter CredCreationSucceededCount,
                SendDuration CredCreationSucceededDuration dur] @ (new_events ?s5 s6 @ ?tail)"
      by (rule new_events_append)
    moreover have "counters (new_events ?s5 s6 @ ?tail) = []" "durations (new_events ?s5 s6 @ ?tail) = []"
      using update_handlers_quiet(2,3) [OF upd]
      by (cases err; simp add: counters_append durations_append)+
    ultimately show ?thesis
      using Inr by auto
  qed
qed

lemma Runner_start_events:
  assumes now: "call (clock_Now c) Clock_Now s = (start, s1)"
    and gen: "generateCreds L c container (Guid container) s1 = (r, s2)"
    and since: "call (clock_Since c start) (Clock_Since start) s2 = (dur, s3)"
    and run: "Runner_start L c container s = (res, s')"
  shows "case r of
           Inl err \<Rightarrow>
             res = Some err \<and>
             new_events s s' =
               Clock_Now start # new_events s1 s2 @
               [Clock_Since start dur, IncrementCounter CredCreationFailedCount]
         | Inr creds \<Rightarrow>
             (\<exists>du. update_calls du = update_calls (new_events s3 (snd (update_handlers (handlers c) 0 creds container s3))) \<and>
                  counters du = [] \<and> durations du = [] \<and>
                  new_events s s' =
                    Clock_Now start # new_events s1 s2 @ [Clock_Since start dur] @ du @
                    (case res of
                       None \<Rightarrow>
                         [IncrementCounter CredCreationSucceededCount,
                          SendDuration CredCreationSucceededDuration dur,
                          Clock_NewTimer (calculateCredentialRotationPeriod (validityPeriod c)),
                          Close_ready]
                     | Some e \<Rightarrow> []))"
proof -
  have t1: "trace s1 = trace s @ [Clock_Now start]"
    by (rule call_trace [OF now])
  have t2: "trace s2 = trace s1 @ new_events s1 s2"
    by (rule generateCreds_quiet(1) [OF gen])
  have t3: "trace s3 = trace s2 @ [Clock_Since start dur]"
    by (rule call_trace [OF since])
  show ?thesis
  proof (cases r)
    case (Inl err)
    with now gen since run have res: "res = Some err"
      and s': "s' = emit (IncrementCounter CredCreationFailedCount) s3"
      by (simp_all add: Runner_start_def)
    have "trace s' = trace s @ Clock_Now start # new_events s1 s2 @
               [Clock_Since start dur, IncrementCounter CredCreationFailedCount]"
      unfolding s' trace_emit t3 t2 t1 by simp
    then have "new_events s s' = Clock_Now start # new_events s1 s2 @
               [Clock_Since start dur, IncrementCounter CredCreationFailedCount]"
      by (rule new_events_append)
    with res Inl show ?thesis by simp
  next
    case (Inr creds)
    obtain err s4 where upd: "update_handlers (handlers c) 0 creds container s3 = (err, s4)"
      by (cases "update_handlers (handlers c) 0 creds container s3")
    have t4: "trace s4 = trace s3 @ new_events s3 s4"
      by (rule update_handlers_quiet(1) [OF upd])
    let ?tail = "case res of
                       None \<Rightarrow>
                         [IncrementCounter CredCreationSucceededCount,
                          SendDuration CredCreationSucceededDuration dur,
                          Clock_NewTimer (calculateCredentialRotationPeriod (validityPeriod c)),
                          Close_ready]
                     | Some e \<Rightarrow> []"
    have "res = err \<and> trace s' = trace s4 @ ?tail"
      using now gen since run upd Inr
      by (cases err) (auto simp: Runner_start_def Let_def trace_emit)
    then have "trace s' = trace s @ (Clock_Now start # new_events s1 s2 @ [Clock_Since start dur] @
                 new_events s3 s4 @ ?tail)"
      unfolding t4 t3 t2 t1 by simp
    then have "new_events s s' = Clock_Now start # new_events s1 s2 @ [Clock_Since start dur] @
                 new_events s3 s4 @ ?tail"
      by (rule new_events_append)
    with update_handlers_quiet(2,3) [OF upd] upd Inr show ?thesis
      by auto
  qed
qed

lemma Runner_regenerate_counters:
  assumes now: "call (clock_Now c) Clock_Now s = (start, s1)"
    and gen: "generateCreds L c container (Guid container) s1 = (r, s2)"
  shows "case r of
           Inl err \<Rightarrow>
             counters (new_events s (snd (Runner_regenerate L c container s))) =
               [CredCreationFailedCount] \<and>
             durations (new_events s (snd (Runner_regenerate L c container s))) = []
         | Inr creds \<Rightarrow>
             counters (new_events s (snd (Runner_regenerate L c container s))) =
               [CredCreationSucceededCount] \<and>
             durations (new_events s (snd (Runner_regenerate L c container s))) =
               [CredCreationSucceededDuration]"
proof -
  obtain dur s3 where since: "call (clock_Since c start) (Clock_Since start) s2 = (dur, s3)"
    by (cases "call (clock_Since c start) (Clock_Since start) s2")
  obtain res s' where run: "Runner_regenerate L c container s = (res, s')"
    by (cases "Runner_regenerate L c container s")
  from Runner_regenerate_events [OF now gen since run] generateCreds_quiet(2,3) [OF gen] run
  show ?thesis
    by (cases r) (auto simp: counters_append durations_append)
qed

lemma Runner_start_counters:
  assumes now: "call (clock_Now c) Clock_Now s = (start, s1)"
    and gen: "generateCreds L c container (Guid container) s1 = (r, s2)"
  shows "case r of
           Inl err \<Rightarrow>
             counters (new_events s (snd (Runner_start L c container s))) =
               [CredCreationFailedCount] \<and>
             durations (new_events s (snd (Runner_start L c container s))) = []
         | Inr creds \<Rightarrow>
             CredCreationFailedCount \<notin> set (counters (new_events s (snd (Runner_start L c container s)))) \<and>
             (fst (Runner_start L c container s) = None \<longrightarrow>
                counters (new_events s (snd (Runner_start L c container s))) =
                  [CredCreationSucceededCount] \<and>
                durations (new_events s (snd (Runner_start L c container s))) =
                  [CredCreationSucceededDuration])"
proof -
  obtain dur s3 where since: "call (clock_Since c start) (Clock_Since start) s2 = (dur, s3)"
    by (cases "call (clock_Since c start) (Clock_Since start) s2")
  obtain res s' where run: "Runner_start L c container s = (res, s')"
    by (cases "Runner_start L c container s")
  have ne: "CredCreationFailedCount \<noteq> CredCreationSucceededCount"
    by (simp add: CredCreationFailedCount_def CredCreationSucceededCount_def)
  from Runner_start_events [OF now gen since run] generateCreds_quiet(2,3) [OF gen] run ne
  show ?thesis
    by (cases r; cases res) (auto simp: counters_append durations_append)
qed

lemma Runner_signalled_counters:
  assumes gen: "generateCreds L c container [] s = (r, s1)"
  shows "case r of
           Inl err \<Rightarrow>
             counters (new_events s (snd (Runner_signalled L c container sig s))) =
               [CredCreationFailedCount] \<and>
             durations (new_events s (snd (Runner_signalled L c container sig s))) = []
         | Inr cred \<Rightarrow>
             counters (new_events s (snd (Runner_signalled L c container sig s))) = [] \<and>
             durations (new_events s (snd (Runner_signalled L c container sig s))) = []"
proof -
  obtain res s' where run: "Runner_signalled L c container sig s = (res, s')"
    by (cases "Runner_signalled L c container sig s")
  from Runner_signalled_events [OF gen run] run show ?thesis
    by (cases r) simp_all
qed

text \<open>
  C2, as the code has it. In each of the three issuance attempts of the runner the failure
  counter is incremented, once and alone, exactly when the generation fails. When the
  generation succeeds: a timer-fired cycle increments the success counter once and sends
  one duration; the first issuance never increments the failure counter, and increments
  the success counter once and sends one duration when the runner goes on to its loop;
  the final issuance on a signal emits no counter and no duration.
\<close>

theorem issuance_counters:
  assumes "call (clock_Now c) Clock_Now s = (start, s1)"
    and "generateCreds L c container (Guid container) s1 = (r, s2)"
    and "generateCreds L c container [] s = (r0, s0)"
  shows "(case r of
            Inl err \<Rightarrow>
              counters (new_events s (snd (Runner_regenerate L c container s))) =
                [CredCreationFailedCount] \<and>
              durations (new_events s (snd (Runner_regenerate L c container s))) = []
          | Inr creds \<Rightarrow>
              counters (new_events s (snd (Runner_regenerate L c container s))) =
                [CredCreationSucceededCount] \<and>
              durations (new_events s (snd (Runner_regenerate L c container s))) =
                [CredCreationSucceededDuration]) \<and>
         (case r of
            Inl err \<Rightarrow>
              counters (new_events s (snd (Runner_start L c container s))) =
                [CredCreationFailedCount] \<and>
              durations (new_events s (snd (Runner_start L c container s))) = []
          | Inr creds \<Rightarrow>
              CredCreationFailedCount \<notin>
                set (counters (new_events s (snd (Runner_start L c container s)))) \<and>
              (fst (Runner_start L c container s) = None \<longrightarrow>
                 counters (new_events s (snd (Runner_start L c container s))) =
                   [CredCreationSucceededCount] \<and>
                 durations (new_events s (snd (Runner_start L c container s))) =
                   [CredCreationSucceededDuration])) \<and>
         (case r0 of
            Inl err \<Rightarrow>
              counters (new_events s (snd (Runner_signalled L c container sig s))) =
                [CredCreationFailedCount] \<and>
              durations (new_events s (snd (Runner_signalled L c container sig s))) = []
          | Inr cred \<Rightarrow>
              counters (new_events s (snd (Runner_signalled L c container sig s))) = [] \<and>
              durations (new_events s (snd (Runner_signalled L c container sig s))) = [])"
  using Runner_regenerate_counters [OF assms(1,2)] Runner_start_counters [OF assms(1,2)]
    Runner_signalled_counters [OF assms(3)]
  by blast

lemma ex_manager_fields:
  "clock_Now (ex_manager hs) = (\<lambda>w. (int w * 1000000000, Suc w))"
  "clock_Since (ex_manager hs) = (\<lambda>t w. (word_of_int (int w * 1000000000 - t), w))"
  "handlers (ex_manager hs) = hs"
  "validityPeriod (ex_manager hs) = 2 * Hour"
  by (simp_all add: ex_manager_def)

lemma ex_Guid: "Guid ex_container = ''guid-1''"
  by (simp add: ex_container_def)

lemma ex_rotation: "calculateCredentialRotationPeriod (2 * Hour) = 6300000000000"
  by (simp add: calculateCredentialRotationPeriod_def Hour_def Minute_def duration_div_def
      word_sless_alt signed_divide_int_def)

lemma ex_Runner_start:
  "Runner_start ex_library (ex_manager [ex_handler]) ex_container ex_state =
     (None,
      \<lparr>world = 4,
       trace = Clock_Now 0 # ex_generation ''guid-1'' 1 @
         [Clock_Since 0 4000000000,
          Handler_Update 0 ex_creds None,
          IncrementCounter CredCreationSucceededCount,
          SendDuration CredCreationSucceededDuration 4000000000,
          Clock_NewTimer 6300000000000,
          Close_ready]\<rparr>)"
  by (simp add: Runner_start_def ex_state_def call_def ex_manager_fields ex_generateCreds
      ex_rotation emit_def ex_Guid)
     (simp add: ex_handler_def ex_manager_fields ex_rotation emit_def call_def)

lemma ex_Runner_start_failing:
  "Runner_start ex_library (ex_manager [ex_failing_handler]) ex_container ex_state =
     (Some (New ''update failed''),
      \<lparr>world = 4,
       trace = Clock_Now 0 # ex_generation ''guid-1'' 1 @
         [Clock_Since 0 4000000000,
          Handler_Update 0 ex_creds (Some (New ''update failed''))]\<rparr>)"
  by (simp add: Runner_start_def ex_state_def call_def ex_manager_fields ex_generateCreds
      emit_def ex_Guid)
     (simp add: ex_failing_handler_def ex_manager_fields ex_rotation emit_def call_def)

lemma ex_Runner_regenerate:
  "Runner_regenerate ex_library (ex_manager [ex_handler]) ex_container ex_state =
     (None,
      \<lparr>world = 4,
       trace = Clock_Now 0 # ex_generation ''guid-1'' 1 @
         [Clock_Since 0 4000000000,
          IncrementCounter CredCreationSucceededCount,
          SendDuration CredCreationSucceededDuration 4000000000,
          Handler_Update 0 ex_creds None,
          Timer_Reset 6300000000000]\<rparr>)"
  by (simp add: Runner_regenerate_def ex_state_def call_def ex_manager_fields ex_generateCreds
      ex_rotation emit_def ex_Guid)
     (simp add: ex_handler_def ex_manager_fields ex_rotation emit_def call_def)

lemma ex_Runner_signalled:
  "Runner_signalled ex_library (ex_manager [ex_handler]) ex_container (Signal ''terminated'') ex_state =
     (None,
      \<lparr>world = 3,
       trace = ex_generation [] 0 @ [Handler_Close 0 ex_creds (Some (New ''close failed''))]\<rparr>)"
  by (simp add: Runner_signalled_def ex_state_def ex_generateCreds call_def ex_manager_fields)
     (simp add: ex_handler_def ex_manager_fields ex_rotation emit_def call_def)

lemma ex_clock_Now:
  "call (clock_Now (ex_manager hs)) Clock_Now ex_state = (0, \<lparr>world = 1, trace = [Clock_Now 0]\<rparr>)"
  by (simp add: call_def ex_manager_fields ex_state_def)

lemma ex_generateCreds_after_clock:
  "generateCreds ex_library (ex_manager hs) ex_container (Guid ex_container)
     \<lparr>world = 1, trace = [Clock_Now 0]\<rparr> =
     (Inr ex_creds, \<lparr>world = 4, trace = [Clock_Now 0] @ ex_generation (Guid ex_container) 1\<rparr>)"
  using ex_generateCreds [of hs "Guid ex_container" 1 "[Clock_Now 0]"] by simp

lemma ex_generateCreds_empty:
  "generateCreds ex_library (ex_manager hs) ex_container [] ex_state =
     (Inr ex_creds, \<lparr>world = 3, trace = [] @ ex_generation [] 0\<rparr>)"
  using ex_generateCreds [of hs "[]" 0 "[]"] by (simp add: ex_state_def)

lemma ex_generateCreds_broken_after_clock:
  "generateCreds ex_broken_library (ex_manager hs) ex_container (Guid ex_container)
     \<lparr>world = 1, trace = [Clock_Now 0]\<rparr> =
     (Inl (New ''no entropy''),
      \<lparr>world = 1, trace = [Clock_Now 0] @ [Rsa_GenerateKey (Inl (New ''no entropy''))]\<rparr>)"
  by (rule ex_generateCreds_broken)

lemma ex_generateCreds_broken_empty:
  "generateCreds ex_broken_library (ex_manager hs) ex_container [] ex_state =
     (Inl (New ''no entropy''),
      \<lparr>world = 0, trace = [] @ [Rsa_GenerateKey (Inl (New ''no entropy''))]\<rparr>)"
  unfolding ex_state_def by (rule ex_generateCreds_broken)

theorem issuance_counters_witness:
  "counters (new_events ex_state
      (snd (Runner_regenerate ex_library (ex_manager [ex_handler]) ex_container ex_state))) =
     [CredCreationSucceededCount] \<and>
   durations (new_events ex_state
      (snd (Runner_regenerate ex_library (ex_manager [ex_handler]) ex_container ex_state))) =
     [CredCreationSucceededDuration] \<and>
   fst (Runner_start ex_library (ex_manager [ex_handler]) ex_container ex_state) = None \<and>
   counters (new_events ex_state
      (snd (Runner_start ex_library (ex_manager [ex_handler]) ex_container ex_state))) =
     [CredCreationSucceededCount] \<and>
   counters (new_events ex_state
      (snd (Runner_signalled ex_library (ex_manager [ex_handler]) ex_container
         (Signal ''terminated'') ex_state))) = [] \<and>
   counters (new_events ex_state
      (snd (Runner_regenerate ex_broken_library (ex_manager [ex_handler]) ex_container ex_state))) =
     [CredCreationFailedCount] \<and>
   counters (new_events ex_state
      (snd (Runner_start ex_broken_library (ex_manager [ex_handler]) ex_container ex_state))) =
     [CredCreationFailedCount] \<and>
   counters (new_events ex_state
      (snd (Runner_signalled ex_broken_library (ex_manager [ex_handler]) ex_container
         (Signal ''terminated'') ex_state))) = [CredCreationFailedCount]"
proof -
  have s: "fst (Runner_start ex_library (ex_manager [ex_handler]) ex_container ex_state) = None"
    by (simp add: ex_Runner_start)
  from issuance_counters [OF ex_clock_Now ex_generateCreds_after_clock ex_generateCreds_empty,
      of "[ex_handler]" "Signal ''terminated''"]
    issuance_counters [OF ex_clock_Now ex_generateCreds_broken_after_clock
      ex_generateCreds_broken_empty, of "[ex_handler]" "Signal ''terminated''"] s
  show ?thesis by simp
qed

lemma ex_Runner_signal_run:
  "Runner ex_library (ex_manager [ex_handler]) ex_container [Signalled (Signal ''terminated'')]
     ex_state =
     (Returned None,
      \<lparr>world = 7,
       trace = Clock_Now 0 # ex_generation ''guid-1'' 1 @
         [Clock_Since 0 4000000000,
          Handler_Update 0 ex_creds None,
          IncrementCounter CredCreationSucceededCount,
          SendDuration CredCreationSucceededDuration 4000000000,
          Clock_NewTimer 6300000000000,
          Close_ready] @
         ex_generation [] 4 @ [Handler_Close 0 ex_creds (Some (New ''close failed''))]\<rparr>)"
  by (simp add: Runner_def ex_Runner_start Runner_signalled_def ex_generateCreds)
     (simp add: ex_manager_fields ex_handler_def call_def)

text \<open>
  C2 fails on the final issuance. On the concrete manager the generation made on a signal
  succeeds and the step emits no counter and no duration; in the whole run of the runner
  that is started and then signalled, two certificates are signed and the success counter
  is incremented once.
\<close>

theorem issuance_counters_counterexample:
  "fst (generateCreds ex_library (ex_manager [ex_handler]) ex_container [] ex_state) =
     Inr ex_creds \<and>
   counters (new_events ex_state
      (snd (Runner_signalled ex_library (ex_manager [ex_handler]) ex_container
         (Signal ''terminated'') ex_state))) = [] \<and>
   durations (new_events ex_state
      (snd (Runner_signalled ex_library (ex_manager [ex_handler]) ex_container
         (Signal ''terminated'') ex_state))) = [] \<and>
   fst (Runner ex_library (ex_manager [ex_handler]) ex_container
      [Signalled (Signal ''terminated'')] ex_state) = Returned None \<and>
   length (templates (trace (snd (Runner ex_library (ex_manager [ex_handler]) ex_container
      [Signalled (Signal ''terminated'')] ex_state)))) = 2 \<and>
   counters (trace (snd (Runner ex_library (ex_manager [ex_handler]) ex_container
      [Signalled (Signal ''terminated'')] ex_state))) = [CredCreationSucceededCount]"
  unfolding ex_generateCreds_empty ex_Runner_signalled ex_Runner_signal_run fst_conv snd_conv
  by (simp add: new_events_def ex_state_def ex_generation_def)

section \<open>Order of telemetry and fan-out in a cycle\<close>

text \<open>
  In a timer-fired cycle whose generation succeeds, the success counter and the duration
  come before every call of \<open>Update\<close>.
\<close>

lemma Runner_regenerate_telemetry_first:
  assumes now: "call (clock_Now c) Clock_Now s = (start, s1)"
    and gen: "generateCreds L c container (Guid container) s1 = (Inr creds, s2)"
    and since: "call (clock_Since c start) (Clock_Since start) s2 = (dur, s3)"
    and run: "Runner_regenerate L c container s = (res, s')"
  shows "\<exists>pre du. new_events s s' =
            pre @ [IncrementCounter CredCreationSucceededCount,
                   SendDuration CredCreationSucceededDuration dur] @ du \<and>
          update_calls pre = [] \<and> counters pre = [] \<and> durations pre = [] \<and>
          counters du = [] \<and> durations du = []"
proof -
  from Runner_regenerate_events [OF now gen since run] obtain du where
    d: "new_events s s' =
          (Clock_Now start # new_events s1 s2 @ [Clock_Since start dur]) @
          [IncrementCounter CredCreationSucceededCount,
           SendDuration CredCreationSucceededDuration dur] @ du"
    and du: "counters du = []" "durations du = []"
    by auto
  have "update_calls (Clock_Now start # new_events s1 s2 @ [Clock_Since start dur]) = []"
    "counters (Clock_Now start # new_events s1 s2 @ [Clock_Since start dur]) = []"
    "durations (Clock_Now start # new_events s1 s2 @ [Clock_Since start dur]) = []"
    using generateCreds_quiet(2,3,4) [OF gen]
    by (simp_all add: update_calls_append counters_append durations_append)
  with d du show ?thesis
    by blast
qed

text \<open>
  In the first cycle, when the runner goes on to its loop, every handler has been updated
  before the success counter and the duration are emitted.
\<close>

lemma Runner_start_updates_first:
  assumes now: "call (clock_Now c) Clock_Now s = (start, s1)"
    and gen: "generateCreds L c container (Guid container) s1 = (Inr creds, s2)"
    and since: "call (clock_Since c start) (Clock_Since start) s2 = (dur, s3)"
    and run: "Runner_start L c container s = (None, s')"
  shows "\<exists>pre. new_events s s' =
            pre @ [IncrementCounter CredCreationSucceededCount,
                   SendDuration CredCreationSucceededDuration dur,
                   Clock_NewTimer (calculateCredentialRotationPeriod (validityPeriod c)),
                   Close_ready] \<and>
          counters pre = [] \<and> durations pre = [] \<and>
          map (\<lambda>(j, cr, r). (j, cr)) (update_calls pre) =
            map (\<lambda>j. (j, creds)) [0..<length (handlers c)]"
proof -
  obtain err s4 where upd: "update_handlers (handlers c) 0 creds container s3 = (err, s4)"
    by (cases "update_handlers (handlers c) 0 creds container s3")
  have err: "err = None"
    using now gen since run upd by (cases err) (auto simp: Runner_start_def Let_def)
  from Runner_start_events [OF now gen since run] upd obtain du where
    du: "update_calls du = update_calls (new_events s3 s4)" "counters du = []" "durations du = []"
    and d: "new_events s s' =
          (Clock_Now start # new_events s1 s2 @ [Clock_Since start dur] @ du) @
          [IncrementCounter CredCreationSucceededCount,
           SendDuration CredCreationSucceededDuration dur,
           Clock_NewTimer (calculateCredentialRotationPeriod (validityPeriod c)),
           Close_ready]"
    by auto
  from update_handlers_fail_fast [OF upd] err have
    "map (\<lambda>(j, cr, r). (j, cr)) (update_calls (new_events s3 s4)) =
       map (\<lambda>j. (j, creds)) [0..<length (handlers c)]"
    by simp
  with du generateCreds_quiet(2,3,4) [OF gen] have
    "counters (Clock_Now start # new_events s1 s2 @ [Clock_Since start dur] @ du) = []"
    "durations (Clock_Now start # new_events s1 s2 @ [Clock_Since start dur] @ du) = []"
    "map (\<lambda>(j, cr, r). (j, cr))
       (update_calls (Clock_Now start # new_events s1 s2 @ [Clock_Since start dur] @ du)) =
     map (\<lambda>j. (j, creds)) [0..<length (handlers c)]"
    by (simp_all add: update_calls_append counters_append durations_append)
  with d show ?thesis
    by blast
qed

text \<open>
  C3. The first cycle of the runner on the concrete manager: the call of \<open>Update\<close> comes
  before the success counter and the duration; and with a handler whose \<open>Update\<close> fails,
  the generation having succeeded, the runner returns the error and no counter or duration
  is emitted at all.
\<close>

theorem initial_cycle_order:
  "Runner_start ex_library (ex_manager [ex_handler]) ex_container ex_state =
     (None,
      \<lparr>world = 4,
       trace = Clock_Now 0 # ex_generation ''guid-1'' 1 @
         [Clock_Since 0 4000000000,
          Handler_Update 0 ex_creds None,
          IncrementCounter CredCreationSucceededCount,
          SendDuration CredCreationSucceededDuration 4000000000,
          Clock_NewTimer 6300000000000,
          Close_ready]\<rparr>) \<and>
   Runner_start ex_library (ex_manager [ex_failing_handler]) ex_container ex_state =
     (Some (New ''update failed''),
      \<lparr>world = 4,
       trace = Clock_Now 0 # ex_generation ''guid-1'' 1 @
         [Clock_Since 0 4000000000,
          Handler_Update 0 ex_creds (Some (New ''update failed''))]\<rparr>) \<and>
   filter is_telemetry (ex_generation ''guid-1'' 1) = []"
  by (simp add: ex_Runner_start ex_Runner_start_failing ex_generation_def)

end
